theory Spec2Isabelle
  imports Main
begin

section \<open>The registry-discovered gRPC client (pkg/microservices/go-micro/v4/grpc-client)\<close>

subsection \<open>Data of the collaborators\<close>

text \<open>
  A \<open>registry.Node\<close> and a \<open>registry.Service\<close> of go-micro, with the fields that
  \<open>client.go\<close> reads. The metadata map is kept as an association list and read with
  \<open>map_of\<close>. The field \<open>Id\<close> of a node is written \<open>Id'\<close>, since \<open>Id\<close> is the identity
  relation of HOL. The elements of a \<open>[]*registry.Service\<close> are taken to be non-nil
  pointers, as the Consul registry builds them.
\<close>

record node =
  Id' :: string
  Address :: string
  Metadata :: "(string \<times> string) list"

record service =
  Name :: string
  Nodes :: "node list"

text \<open>
  The \<open>defs.Config\<close> interface is used through its two getters only
  (\<open>GetConsulAddress\<close>, \<open>GetServerName\<close>).
\<close>

record config =
  consulAddress :: string
  serverName :: string

text \<open>
  Go \<open>error\<close> values. \<open>CollaboratorError\<close> is an error made outside this package (by
  the registry or the transport library); the other three are the three \<open>fmt.Errorf\<close>
  calls of \<open>client.go\<close>, each with the values it formats.
\<close>

datatype error =
    CollaboratorError string
  | ErrRetrievingService string error
  | ErrNoInstances string
  | ErrSettingUpClient error

fun error_string :: "error \<Rightarrow> string" where
  "error_string (CollaboratorError m) = m"
| "error_string (ErrRetrievingService n e) =
     ''error retrieving service '' @ n @ '' from Consul: '' @ error_string e"
| "error_string (ErrNoInstances n) = ''no instances found for service '' @ n"
| "error_string (ErrSettingUpClient e) = ''error setting up gRPC client: '' @ error_string e"

text \<open>
  What \<open>consulRegistry.GetService\<close> hands back: the Go pair \<open>(services, err)\<close>. A nil
  slice and an empty slice are both the empty list (the code only takes \<open>len\<close>).
\<close>

type_synonym reg_response = "service list \<times> error option"

text \<open>
  The registry collaborator: its answer to the \<open>k\<close>-th lookup of the process, for the
  address the registry handle was built with and the service name asked for.
\<close>

type_synonym registry = "nat \<Rightarrow> string \<Rightarrow> string \<Rightarrow> reg_response"

text \<open>The handle \<open>consul.NewRegistry\<close> returns and the client \<open>grpc.NewClient\<close> builds on it.\<close>

datatype registry_handle = ConsulRegistry string

datatype gmclient = GrpcClient registry_handle

text \<open>
  The struct \<open>client\<close>: the transport \<open>c\<close> (an interface value, nil when the field is
  not set) and the discovered records \<open>rs\<close> (nil slice = empty list).
\<close>

record client =
  client_c :: "gmclient option"
  client_rs :: "service list"

datatype panic = IndexOutOfRange

subsection \<open>The sequential functions\<close>

text \<open>Lines 94 to 103: the three lines printed for one node.\<close>

definition printNode :: "node \<Rightarrow> string list" where
  "printNode n =
     [''  - Instance ID: '' @ Id' n,
      ''  - Address: '' @ Address n,
      (case map_of (Metadata n) ''port'' of
         Some port \<Rightarrow> ''  - Port: '' @ port
       | None \<Rightarrow> ''  - Port: Not available in metadata'')]"

text \<open>Lines 91 to 105: the lines printed for one service record.\<close>

definition printService :: "service \<Rightarrow> string list" where
  "printService s = (''Service: '' @ Name s) # concat (map printNode (Nodes s))"

text \<open>
  \<open>getRegisteredServices\<close> (lines 79 to 108), given the registry's answer to the
  \<open>GetService\<close> call it makes. It returns the lines it prints and the Go pair
  \<open>(services, err)\<close>.
\<close>

definition getRegisteredServices ::
  "config \<Rightarrow> reg_response \<Rightarrow> string list \<times> service list \<times> error option" where
  "getRegisteredServices cfg resp =
     (case resp of (services, err) \<Rightarrow>
        (case err of
           Some e \<Rightarrow> ([], [], Some (ErrRetrievingService (serverName cfg) e))
         | None \<Rightarrow>
             if length services = 0
             then ([], [], Some (ErrNoInstances (serverName cfg)))
             else (concat (map printService services), services, None)))"

text \<open>\<open>setupClient\<close> (lines 110 to 118): the Go pair \<open>(c, nil)\<close>.\<close>

definition setupClient :: "config \<Rightarrow> gmclient option \<times> error option" where
  "setupClient cfg =
     (let consulRegistry = ConsulRegistry (consulAddress cfg);
          c = GrpcClient consulRegistry
      in (Some c, None))"

text \<open>The accessors (lines 121 to 127). Indexing an empty slice panics.\<close>

definition GetClient :: "client \<Rightarrow> gmclient option" where
  "GetClient h = client_c h"

definition GetServerName :: "client \<Rightarrow> panic + string" where
  "GetServerName h =
     (case client_rs h of [] \<Rightarrow> Inl IndexOutOfRange | r # _ \<Rightarrow> Inr (Name r))"

subsection \<open>The process: callers of \<open>newClient\<close> and the discovery goroutine\<close>

text \<open>
  \<open>newClient\<close> (lines 29 to 55) and \<open>attemptGettingRegisteredServices\<close> (lines 57 to
  77) share the package variables \<open>instance\<close>, \<open>once\<close> and \<open>initError\<close> and run in
  different goroutines, so they are modelled as one transition system: every goroutine
  has a program point, and a step runs one goroutine from its program point to the next.

  \<open>sync.Once\<close> is the standard library's: \<open>Do f\<close> runs \<open>f\<close> in the first goroutine
  that arrives, makes every other goroutine that calls \<open>Do\<close> meanwhile wait, and is
  done when \<open>f\<close> returns. The sections under \<open>instanceMu\<close> are one read or one write of
  \<open>instance\<close> each, so each is one step.
\<close>

datatype once_t = OnceFresh | OnceRunning | OnceDone

text \<open>
  The program points of a call of \<open>newClient\<close>:
  \<^item> \<open>AtOnce\<close>: line 30, about to call \<open>once.Do\<close>;
  \<^item> \<open>AtSetup\<close>: line 31, inside the closure, about to call \<open>setupClient\<close>;
  \<^item> \<open>AtAssign clt\<close>: line 36, \<open>err\<close> was nil, about to assign \<open>instance\<close>;
  \<^item> \<open>AtGo\<close>: line 40, about to start the goroutine, after which the closure ends;
  \<^item> \<open>AtWait\<close>: line 44, the top of the wait loop;
  \<^item> \<open>AtReturn\<close>: line 54, after the \<open>break\<close>;
  \<^item> \<open>Returned h e\<close>: the call has returned the Go pair \<open>(h, e)\<close>.
\<close>

datatype caller_pc =
    AtOnce
  | AtSetup
  | AtAssign "gmclient option"
  | AtGo
  | AtWait
  | AtReturn
  | Returned "client option" "error option"

text \<open>
  The program points of \<open>attemptGettingRegisteredServices\<close>:
  \<^item> \<open>BgLookup\<close>: line 58, the top of the loop;
  \<^item> \<open>BgPublish regSrv\<close>: line 68, \<open>err\<close> was nil, about to take the write lock;
  \<^item> \<open>BgDone\<close>: after the \<open>break\<close>, the goroutine has ended.
\<close>

datatype bg_pc = BgLookup | BgPublish "service list" | BgDone

text \<open>
  The state of the process: the three package variables (\<open>instance\<close> is written
  \<open>instance_g\<close>), the calls of \<open>newClient\<close> in progress with their argument, the
  goroutines started by \<open>go\<close> with their argument, what was written to standard output,
  and two counters that the code does not have: how many times \<open>setupClient\<close> was called
  and how many lookups the registry has answered.
\<close>

record sys =
  instance_g :: "client option"
  once :: once_t
  initError :: "error option"
  callers :: "(config \<times> caller_pc) list"
  tasks :: "(config \<times> bg_pc) list"
  out :: "string list"
  setups :: nat
  lookups :: nat

datatype actor = Caller nat | Bg nat

text \<open>
  One step of the \<open>i\<close>-th call of \<open>newClient\<close>, at program point \<open>pc\<close> with argument
  \<open>cfg\<close>. The transport factory is the parameter \<open>setupf\<close>, so that the branch
  \<open>err != nil\<close> of line 32 is part of the model; the program is the instance at
  \<open>setupClient\<close>. A call that waits (for \<open>once\<close>, or asleep in the wait loop) or has
  returned leaves the state as it is.
\<close>

definition caller_step ::
  "(config \<Rightarrow> gmclient option \<times> error option) \<Rightarrow> nat \<Rightarrow> config \<Rightarrow> caller_pc \<Rightarrow> sys \<Rightarrow> sys" where
  "caller_step setupf i cfg pc s =
     (case pc of
        AtOnce \<Rightarrow>
          (case once s of
             OnceFresh \<Rightarrow> s\<lparr>once := OnceRunning, callers := (callers s)[i := (cfg, AtSetup)]\<rparr>
           | OnceRunning \<Rightarrow> s
           | OnceDone \<Rightarrow> s\<lparr>callers := (callers s)[i := (cfg, AtWait)]\<rparr>)
      | AtSetup \<Rightarrow>
          (case setupf cfg of (clt, err) \<Rightarrow>
             (case err of
                Some e \<Rightarrow>
                  s\<lparr>setups := setups s + 1,
                    initError := Some (ErrSettingUpClient e),
                    once := OnceDone,
                    callers := (callers s)[i := (cfg, AtWait)]\<rparr>
              | None \<Rightarrow>
                  s\<lparr>setups := setups s + 1,
                    callers := (callers s)[i := (cfg, AtAssign clt)]\<rparr>))
      | AtAssign clt \<Rightarrow>
          s\<lparr>instance_g := Some \<lparr>client_c = clt, client_rs = []\<rparr>,
            callers := (callers s)[i := (cfg, AtGo)]\<rparr>
      | AtGo \<Rightarrow>
          s\<lparr>tasks := tasks s @ [(cfg, BgLookup)],
            once := OnceDone,
            callers := (callers s)[i := (cfg, AtWait)]\<rparr>
      | AtWait \<Rightarrow>
          (if instance_g s \<noteq> None
           then s\<lparr>callers := (callers s)[i := (cfg, AtReturn)]\<rparr>
           else s)
      | AtReturn \<Rightarrow>
          s\<lparr>callers := (callers s)[i := (cfg, Returned (instance_g s) None)]\<rparr>
      | Returned h e \<Rightarrow> s)"

text \<open>
  One step of the \<open>j\<close>-th discovery goroutine. At \<open>BgLookup\<close> it runs one iteration of
  the loop up to line 66 or 67: on an error it prints, sleeps and is at the top of the
  loop again. At \<open>BgPublish\<close> it runs lines 68 to 75.
\<close>

definition bg_step :: "registry \<Rightarrow> nat \<Rightarrow> config \<Rightarrow> bg_pc \<Rightarrow> sys \<Rightarrow> sys" where
  "bg_step reg j cfg pc s =
     (case pc of
        BgLookup \<Rightarrow>
          (case getRegisteredServices cfg (reg (lookups s) (consulAddress cfg) (serverName cfg)) of
             (printed, regSrv, err) \<Rightarrow>
               (case err of
                  Some e \<Rightarrow>
                    s\<lparr>lookups := lookups s + 1,
                      out := out s @ [''Getting gRPC server...''] @ printed @
                        [''Error getting registered services from Consul: '' @ error_string e @
                         ''. Retrying in 5 seconds...'']\<rparr>
                | None \<Rightarrow>
                    s\<lparr>lookups := lookups s + 1,
                      out := out s @ [''Getting gRPC server...''] @ printed,
                      tasks := (tasks s)[j := (cfg, BgPublish regSrv)]\<rparr>))
      | BgPublish regSrv \<Rightarrow>
          s\<lparr>instance_g := Some \<lparr>client_c = None, client_rs = regSrv\<rparr>,
            out := out s @ [''Service found''],
            tasks := (tasks s)[j := (cfg, BgDone)]\<rparr>
      | BgDone \<Rightarrow> s)"

text \<open>The scheduler picks a goroutine; one that does not exist does nothing.\<close>

definition step ::
  "(config \<Rightarrow> gmclient option \<times> error option) \<Rightarrow> registry \<Rightarrow> sys \<Rightarrow> actor \<Rightarrow> sys" where
  "step setupf reg s a =
     (case a of
        Caller i \<Rightarrow>
          (if i < length (callers s)
           then caller_step setupf i (fst (callers s ! i)) (snd (callers s ! i)) s
           else s)
      | Bg j \<Rightarrow>
          (if j < length (tasks s)
           then bg_step reg j (fst (tasks s ! j)) (snd (tasks s ! j)) s
           else s))"

text \<open>A run of the process under a schedule, and the state at process start.\<close>

definition run ::
  "(config \<Rightarrow> gmclient option \<times> error option) \<Rightarrow> registry \<Rightarrow> actor list \<Rightarrow> sys \<Rightarrow> sys" where
  "run setupf reg sched s = foldl (step setupf reg) s sched"

definition start :: "config list \<Rightarrow> sys" where
  "start cfgs =
     \<lparr>instance_g = None, once = OnceFresh, initError = None,
      callers = map (\<lambda>cfg. (cfg, AtOnce)) cfgs, tasks = [],
      out = [], setups = 0, lookups = 0\<rparr>"

text \<open>The lookup fails: the test of lines 83 and 87 on the registry's answer.\<close>

definition lookup_fails :: "reg_response \<Rightarrow> bool" where
  "lookup_fails resp = (snd resp \<noteq> None \<or> fst resp = [])"

text \<open>Two kinds of registry: one whose every lookup fails, and one whose lookups fail
  \<open>M\<close> times and then give the non-empty list \<open>svcs\<close>.\<close>

definition always_fails :: "registry \<Rightarrow> bool" where
  "always_fails reg = (\<forall>k a n. lookup_fails (reg k a n))"

definition first_success :: "registry \<Rightarrow> nat \<Rightarrow> service list \<Rightarrow> bool" where
  "first_success reg M svcs =
     ((\<forall>k<M. \<forall>a n. lookup_fails (reg k a n)) \<and> (\<forall>a n. reg M a n = (svcs, None)) \<and> svcs \<noteq> [])"

subsection \<open>Invariants of the process\<close>

definition pc_of :: "sys \<Rightarrow> nat \<Rightarrow> caller_pc" where
  "pc_of s i = snd (callers s ! i)"

text \<open>The call has left \<open>once.Do\<close>.\<close>

fun past_once :: "caller_pc \<Rightarrow> bool" where
  "past_once AtWait = True"
| "past_once AtReturn = True"
| "past_once (Returned h e) = True"
| "past_once pc = False"

text \<open>Every call but the \<open>j\<close>-th has not entered \<open>once.Do\<close> yet.\<close>

definition alone :: "sys \<Rightarrow> nat \<Rightarrow> bool" where
  "alone s j = (\<forall>k<length (callers s). k \<noteq> j \<longrightarrow> pc_of s k = AtOnce)"

text \<open>
  What \<open>once\<close> guarantees, for any transport factory: a call inside the closure is
  alone there, the counters follow its program point, and once \<open>once\<close> is done there
  is either a handle and one discovery goroutine, or an \<open>initError\<close> and neither.
\<close>

definition once_inv :: "sys \<Rightarrow> bool" where
  "once_inv s =
     (setups s \<le> 1 \<and>
      (once s = OnceFresh \<longrightarrow> setups s = 0 \<and> instance_g s = None) \<and>
      (once s \<noteq> OnceDone \<longrightarrow> tasks s = [] \<and> initError s = None) \<and>
      (once s = OnceDone \<longrightarrow>
         setups s = 1 \<and>
         ((initError s = None \<and> length (tasks s) = 1 \<and> instance_g s \<noteq> None) \<or>
          (initError s \<noteq> None \<and> tasks s = [] \<and> instance_g s = None))) \<and>
      (\<forall>j<length (callers s).
         case pc_of s j of
           AtOnce \<Rightarrow> True
         | AtSetup \<Rightarrow>
             once s = OnceRunning \<and> setups s = 0 \<and> instance_g s = None \<and> alone s j
         | AtAssign clt \<Rightarrow>
             once s = OnceRunning \<and> setups s = 1 \<and> instance_g s = None \<and> alone s j
         | AtGo \<Rightarrow>
             once s = OnceRunning \<and> setups s = 1 \<and> instance_g s \<noteq> None \<and> alone s j
         | AtWait \<Rightarrow> once s = OnceDone
         | AtReturn \<Rightarrow> once s = OnceDone \<and> instance_g s \<noteq> None
         | Returned h e \<Rightarrow>
             once s = OnceDone \<and> instance_g s \<noteq> None \<and> h \<noteq> None \<and> e = None))"


text \<open>What holds in every state when every lookup fails.\<close>

definition retry_inv :: "sys \<Rightarrow> bool" where
  "retry_inv s =
     ((\<forall>j<length (tasks s). snd (tasks s ! j) = BgLookup) \<and>
      (\<forall>h. instance_g s = Some h \<longrightarrow> client_rs h = []))"

text \<open>What holds in every state when the lookups fail \<open>M\<close> times and then give \<open>svcs\<close>.\<close>

definition disc_inv :: "nat \<Rightarrow> service list \<Rightarrow> sys \<Rightarrow> bool" where
  "disc_inv M svcs s =
     (lookups s \<le> M + 1 \<and>
      (tasks s = [] \<longrightarrow> lookups s = 0) \<and>
      (\<forall>j<length (tasks s).
         case snd (tasks s ! j) of
           BgLookup \<Rightarrow> lookups s \<le> M
         | BgPublish v \<Rightarrow> v = svcs \<and> lookups s = M + 1
         | BgDone \<Rightarrow>
             lookups s = M + 1 \<and>
             instance_g s = Some \<lparr>client_c = None, client_rs = svcs\<rparr>))"

text \<open>
  How far the first discovery goroutine has come when the lookups fail \<open>M\<close> times: the
  lookups made while it is in the loop, \<open>M + 1\<close> between the lookup that succeeds and
  the publication, \<open>M + 2\<close> at its end.
\<close>

definition progress :: "nat \<Rightarrow> sys \<Rightarrow> nat" where
  "progress M s =
     (case tasks s of
        [] \<Rightarrow> 0
      | t # _ \<Rightarrow>
          (case snd t of
             BgLookup \<Rightarrow> lookups s
           | BgPublish v \<Rightarrow> M + 1
           | BgDone \<Rightarrow> M + 2))"

subsection \<open>The scenario of the specification\<close>

text \<open>
  The configuration and the record of the scenario, a registry that gives the empty
  list twice and the record from the third lookup on, a registry that is unreachable,
  and a transport factory that fails.
\<close>

definition cfg_orders :: config where
  "cfg_orders = \<lparr>consulAddress = ''consul:8500'', serverName = ''orders''\<rparr>"

definition svc_orders :: service where
  "svc_orders =
     \<lparr>Name = ''orders'',
      Nodes = [\<lparr>Id' = ''n1'', Address = ''10.0.0.5'', Metadata = [(''port'', ''9090'')]\<rparr>]\<rparr>"

definition reg_third :: registry where
  "reg_third k a n = (if k < 2 then ([], None) else ([svc_orders], None))"

definition reg_down :: registry where
  "reg_down k a n = ([], Some (CollaboratorError ''connection refused''))"

definition setup_broken :: "config \<Rightarrow> gmclient option \<times> error option" where
  "setup_broken cfg = (None, Some (CollaboratorError ''no transport''))"

section \<open>The Lambda handler of customers-manager (adapters/inbound/lambda-handler.go)\<close>

text \<open>
  The fields of \<open>events.APIGatewayProxyRequest\<close> and \<open>events.APIGatewayProxyResponse\<close>
  that the handler reads and writes. The Go maps are association lists; reading a key
  that is absent gives the empty string, as in Go. The response's \<open>Body\<close> is written
  \<open>Body'\<close>.
\<close>

record request =
  HTTPMethod :: string
  Resource :: string
  PathParameters :: "(string \<times> string) list"
  Body :: string

record response =
  StatusCode :: int
  Headers :: "(string \<times> string) list"
  Body' :: string

definition path_param :: "request \<Rightarrow> string \<Rightarrow> string" where
  "path_param r k = (case map_of (PathParameters r) k of None \<Rightarrow> [] | Some v \<Rightarrow> v)"

text \<open>The constants of \<open>net/http\<close> and of \<open>pkg/types\<close> that the handler names.\<close>

definition StatusOK :: int where "StatusOK = 200"
definition StatusCreated :: int where "StatusCreated = 201"
definition StatusNoContent :: int where "StatusNoContent = 204"
definition StatusNotFound :: int where "StatusNotFound = 404"

datatype error_type = ErrInternal | ErrInvalidInput | ErrValidation

text \<open>\<open>strings.Contains\<close>.\<close>

fun Contains :: "string \<Rightarrow> string \<Rightarrow> bool" where
  "Contains [] substr = (substr = [])"
| "Contains (x # xs) substr = (take (length substr) (x # xs) = substr \<or> Contains xs substr)"

text \<open>
  Everything the handler calls and this file does not define: the use cases behind
  \<open>ports.UseCases\<close>, \<open>pkg/types\<close>, \<open>pkg/utils\<close>, the \<open>transport\<close> package,
  \<open>validateRequest\<close>, \<open>strconv.ParseInt\<close> (base 10, 64 bits) and \<open>encoding/json\<close>.
  They are parameters, with the types \<open>'x\<close> of contexts, \<open>'e\<close> of Go errors, \<open>'c\<close> of
  domain customers, \<open>'k\<close> of KPIs, \<open>'j\<close> of \<open>transport.CustomerJson\<close>, \<open>'q\<close> of the KPI's
  JSON shape and \<open>'a\<close> of API errors. A function that returns a Go pair returns a pair;
  pointers that the handler dereferences are taken to be non-nil.
\<close>

record ('x, 'e, 'c, 'k, 'j, 'q, 'a) deps =
  uc_GetCustomers :: "'x \<Rightarrow> 'c list \<times> 'e option"
  uc_GetCustomerByID :: "'x \<Rightarrow> int \<Rightarrow> 'c \<times> 'e option"
  uc_CreateCustomer :: "'x \<Rightarrow> 'c \<Rightarrow> 'e option"
  uc_UpdateCustomer :: "'x \<Rightarrow> 'c \<Rightarrow> 'e option"
  uc_DeleteCustomer :: "'x \<Rightarrow> int \<Rightarrow> 'e option"
  uc_GetKPI :: "'x \<Rightarrow> 'k \<times> 'e option"
  NewAPIError :: "'e \<Rightarrow> 'a \<times> int"
  APIError_Error :: "'a \<Rightarrow> string"
  NewError :: "error_type \<Rightarrow> string \<Rightarrow> 'e \<Rightarrow> 'e"
  Error :: "'e \<Rightarrow> string"
  ValidateID :: "int \<Rightarrow> 'e option"
  validateRequest :: "'j \<Rightarrow> 'e option"
  ParseInt :: "string \<Rightarrow> int \<times> 'e option"
  Unmarshal :: "string \<Rightarrow> 'j \<times> 'e option"
  DomainListToCustomerJsonList :: "'c list \<Rightarrow> 'j list"
  DomainToCustomerJson :: "'c \<Rightarrow> 'j"
  CustomerJsonToDomain :: "'j \<Rightarrow> 'c"
  set_ID :: "'c \<Rightarrow> int \<Rightarrow> 'c"
  ToGetKPIJson :: "'k \<Rightarrow> 'q"
  Marshal_GetCustomersResponse :: "'j list \<Rightarrow> string \<times> 'e option"
  Marshal_GetCustomerResponse :: "'j \<Rightarrow> string \<times> 'e option"
  Marshal_KPI :: "'q \<Rightarrow> string \<times> 'e option"

text \<open>
  The response every failing branch builds: \<open>types.NewAPIError\<close> gives the API error
  and the status, and the body is the API error's text. The Go error returned with it
  is nil.
\<close>

definition api_error_response ::
  "('x, 'e, 'c, 'k, 'j, 'q, 'a) deps \<Rightarrow> 'e \<Rightarrow> response \<times> 'e option" where
  "api_error_response d err =
     (case NewAPIError d err of (apiErr, status) \<Rightarrow>
        (\<lparr>StatusCode = status, Headers = [], Body' = APIError_Error d apiErr\<rparr>, None))"

definition json_headers :: "(string \<times> string) list" where
  "json_headers = [(''Content-Type'', ''application/json'')]"

text \<open>\<open>GetCustomers\<close> (lines 65 to 101).\<close>

definition GetCustomers ::
  "('x, 'e, 'c, 'k, 'j, 'q, 'a) deps \<Rightarrow> 'x \<Rightarrow> response \<times> 'e option" where
  "GetCustomers d ctx =
     (case uc_GetCustomers d ctx of (customers, err) \<Rightarrow>
        (case err of
           Some e \<Rightarrow> api_error_response d e
         | None \<Rightarrow>
             (case Marshal_GetCustomersResponse d (DomainListToCustomerJsonList d customers) of
                (body, err) \<Rightarrow>
                  (case err of
                     Some e \<Rightarrow>
                       api_error_response d (NewError d ErrInternal ''Error marshalling response'' e)
                   | None \<Rightarrow>
                       (\<lparr>StatusCode = StatusOK, Headers = json_headers, Body' = body\<rparr>, None)))))"

text \<open>\<open>GetCustomer\<close> (lines 103 to 162).\<close>

definition GetCustomer ::
  "('x, 'e, 'c, 'k, 'j, 'q, 'a) deps \<Rightarrow> 'x \<Rightarrow> request \<Rightarrow> response \<times> 'e option" where
  "GetCustomer d ctx r =
     (case ParseInt d (path_param r ''id'') of (ID, err) \<Rightarrow>
        (case err of
           Some e \<Rightarrow>
             api_error_response d (NewError d ErrInvalidInput ''invalid customer ID format'' e)
         | None \<Rightarrow>
             (case ValidateID d ID of
                Some e \<Rightarrow> api_error_response d e
              | None \<Rightarrow>
                  (case uc_GetCustomerByID d ctx ID of (customer, err) \<Rightarrow>
                     (case err of
                        Some e \<Rightarrow> api_error_response d e
                      | None \<Rightarrow>
                          (case Marshal_GetCustomerResponse d (DomainToCustomerJson d customer) of
                             (body, err) \<Rightarrow>
                               (case err of
                                  Some e \<Rightarrow>
                                    api_error_response d
                                      (NewError d ErrInternal ''Error marshalling response'' e)
                                | None \<Rightarrow>
                                    (\<lparr>StatusCode = StatusOK, Headers = json_headers,
                                      Body' = body\<rparr>, None))))))))"

text \<open>The message \<open>CreateCustomer\<close> picks for a body that does not decode (lines 167 to 180).\<close>

definition unmarshal_message :: "string \<Rightarrow> string" where
  "unmarshal_message errStr =
     (if Contains errStr ''Email' failed on the 'required' tag''
      then ''invalid email format''
      else if Contains errStr ''Age' failed on the 'required' tag''
      then ''invalid age''
      else if Contains errStr ''failed on the 'required' tag''
      then ''missing required field''
      else if Contains errStr ''cannot unmarshal''
      then ''invalid data type''
      else ''request cannot be nil'')"

text \<open>\<open>CreateCustomer\<close> (lines 164 to 217).\<close>

definition CreateCustomer ::
  "('x, 'e, 'c, 'k, 'j, 'q, 'a) deps \<Rightarrow> 'x \<Rightarrow> request \<Rightarrow> response \<times> 'e option" where
  "CreateCustomer d ctx r =
     (case Unmarshal d (Body r) of (req, err) \<Rightarrow>
        (case err of
           Some e \<Rightarrow>
             api_error_response d (NewError d ErrValidation (unmarshal_message (Error d e)) e)
         | None \<Rightarrow>
             (case validateRequest d req of
                Some e \<Rightarrow> api_error_response d e
              | None \<Rightarrow>
                  (case uc_CreateCustomer d ctx (CustomerJsonToDomain d req) of
                     Some e \<Rightarrow> api_error_response d e
                   | None \<Rightarrow>
                       (\<lparr>StatusCode = StatusCreated, Headers = json_headers, Body' = []\<rparr>,
                        None)))))"

text \<open>\<open>UpdateCustomer\<close> (lines 219 to 283).\<close>

definition UpdateCustomer ::
  "('x, 'e, 'c, 'k, 'j, 'q, 'a) deps \<Rightarrow> 'x \<Rightarrow> request \<Rightarrow> response \<times> 'e option" where
  "UpdateCustomer d ctx r =
     (case ParseInt d (path_param r ''id'') of (ID, err) \<Rightarrow>
        (case err of
           Some e \<Rightarrow>
             api_error_response d (NewError d ErrInvalidInput ''invalid customer ID format'' e)
         | None \<Rightarrow>
             (case ValidateID d ID of
                Some e \<Rightarrow> api_error_response d e
              | None \<Rightarrow>
                  (case Unmarshal d (Body r) of (req, err) \<Rightarrow>
                     (case err of
                        Some e \<Rightarrow>
                          api_error_response d (NewError d ErrValidation ''invalid request body'' e)
                      | None \<Rightarrow>
                          (case validateRequest d req of
                             Some e \<Rightarrow> api_error_response d e
                           | None \<Rightarrow>
                               (let customer = set_ID d (CustomerJsonToDomain d req) ID
                                in (case uc_UpdateCustomer d ctx customer of
                                      Some e \<Rightarrow> api_error_response d e
                                    | None \<Rightarrow>
                                        (\<lparr>StatusCode = StatusOK, Headers = json_headers,
                                          Body' = []\<rparr>, None)))))))))"

text \<open>\<open>DeleteCustomer\<close> (lines 285 to 323).\<close>

definition DeleteCustomer ::
  "('x, 'e, 'c, 'k, 'j, 'q, 'a) deps \<Rightarrow> 'x \<Rightarrow> request \<Rightarrow> response \<times> 'e option" where
  "DeleteCustomer d ctx r =
     (case ParseInt d (path_param r ''id'') of (ID, err) \<Rightarrow>
        (case err of
           Some e \<Rightarrow>
             api_error_response d (NewError d ErrInvalidInput ''invalid customer ID format'' e)
         | None \<Rightarrow>
             (case ValidateID d ID of
                Some e \<Rightarrow> api_error_response d e
              | None \<Rightarrow>
                  (case uc_DeleteCustomer d ctx ID of
                     Some e \<Rightarrow> api_error_response d e
                   | None \<Rightarrow>
                       (\<lparr>StatusCode = StatusNoContent, Headers = json_headers, Body' = []\<rparr>,
                        None)))))"

text \<open>\<open>GetKPI\<close> (lines 325 to 359).\<close>

definition GetKPI ::
  "('x, 'e, 'c, 'k, 'j, 'q, 'a) deps \<Rightarrow> 'x \<Rightarrow> response \<times> 'e option" where
  "GetKPI d ctx =
     (case uc_GetKPI d ctx of (kpi, err) \<Rightarrow>
        (case err of
           Some e \<Rightarrow> api_error_response d e
         | None \<Rightarrow>
             (case Marshal_KPI d (ToGetKPIJson d kpi) of (body, err) \<Rightarrow>
                (case err of
                   Some e \<Rightarrow>
                     api_error_response d (NewError d ErrInternal ''Error marshalling response'' e)
                 | None \<Rightarrow>
                     (\<lparr>StatusCode = StatusOK, Headers = json_headers, Body' = body\<rparr>, None)))))"

text \<open>\<open>HandleRequest\<close> (lines 43 to 63): the first case of the switch that holds.\<close>

definition HandleRequest ::
  "('x, 'e, 'c, 'k, 'j, 'q, 'a) deps \<Rightarrow> 'x \<Rightarrow> request \<Rightarrow> response \<times> 'e option" where
  "HandleRequest d ctx r =
     (if HTTPMethod r = ''GET'' \<and> Resource r = ''/customers'' then GetCustomers d ctx
      else if HTTPMethod r = ''GET'' \<and> Resource r = ''/customers/{id}'' then GetCustomer d ctx r
      else if HTTPMethod r = ''POST'' \<and> Resource r = ''/customers'' then CreateCustomer d ctx r
      else if HTTPMethod r = ''PUT'' \<and> Resource r = ''/customers/{id}'' then UpdateCustomer d ctx r
      else if HTTPMethod r = ''DELETE'' \<and> Resource r = ''/customers/{id}'' then DeleteCustomer d ctx r
      else if HTTPMethod r = ''GET'' \<and> Resource r = ''/customers/kpi'' then GetKPI d ctx
      else (\<lparr>StatusCode = StatusNotFound, Headers = [], Body' = ''Not Found''\<rparr>, None))"

text \<open>
  What it means that a failure \<open>err\<close> is encoded in the response alone: the status is
  the one \<open>types.NewAPIError\<close> gives for \<open>err\<close>, the body is the text of the API error,
  there are no headers, and the Go error is nil. It is written without
  \<open>api_error_response\<close>, to be compared with what the handlers return.
\<close>

definition failure_encoding ::
  "('x, 'e, 'c, 'k, 'j, 'q, 'a) deps \<Rightarrow> 'e \<Rightarrow> response \<times> 'e option" where
  "failure_encoding d err =
     (\<lparr>StatusCode = snd (NewAPIError d err), Headers = [],
       Body' = APIError_Error d (fst (NewAPIError d err))\<rparr>, None)"

text \<open>
  The shapes a handler's result can have: the encoding of a failure, or one of the
  three successes, or the answer to an unknown route; each with a nil Go error.
\<close>

definition encoded ::
  "('x, 'e, 'c, 'k, 'j, 'q, 'a) deps \<Rightarrow> response \<times> 'e option \<Rightarrow> bool" where
  "encoded d p =
     ((\<exists>e. p = failure_encoding d e) \<or>
      (\<exists>b. p = (\<lparr>StatusCode = 200, Headers = json_headers, Body' = b\<rparr>, None)) \<or>
      p = (\<lparr>StatusCode = 201, Headers = json_headers, Body' = []\<rparr>, None) \<or>
      p = (\<lparr>StatusCode = 204, Headers = json_headers, Body' = []\<rparr>, None) \<or>
      p = (\<lparr>StatusCode = 404, Headers = [], Body' = ''Not Found''\<rparr>, None))"

text \<open>
  A concrete set of collaborators, to run the handlers on: contexts are numbers (context
  1 has the store down, context 2 holds a customer and a KPI that do not encode), errors
  and API errors are their texts, a customer is an id and a name, its JSON shape is the
  name.
\<close>

definition demo_status :: "string \<Rightarrow> int" where
  "demo_status e =
     (if e = ''customer not found'' then 404
      else if e = ''database unavailable'' then 500
      else 400)"

definition demo_kind :: "error_type \<Rightarrow> string" where
  "demo_kind t =
     (case t of
        ErrInternal \<Rightarrow> ''internal: ''
      | ErrInvalidInput \<Rightarrow> ''invalid input: ''
      | ErrValidation \<Rightarrow> ''validation: '')"

definition demo_deps :: "(nat, string, int \<times> string, nat, string, nat, string) deps" where
  "demo_deps =
     \<lparr>uc_GetCustomers =
        (\<lambda>ctx. if ctx = 1 then ([], Some ''database unavailable'')
              else if ctx = 2 then ([(8, ''bob'')], None)
              else ([(7, ''ann'')], None)),
      uc_GetCustomerByID =
        (\<lambda>ctx ID. if ID = 7 then ((7, ''ann''), None)
                 else if ID = 8 then ((8, ''bob''), None)
                 else ((0, []), Some ''customer not found'')),
      uc_CreateCustomer =
        (\<lambda>ctx c. if snd c = ''ann'' then Some ''customer already exists'' else None),
      uc_UpdateCustomer = (\<lambda>ctx c. if fst c = 7 then None else Some ''customer not found''),
      uc_DeleteCustomer = (\<lambda>ctx ID. if ID = 7 then None else Some ''customer not found''),
      uc_GetKPI =
        (\<lambda>ctx. if ctx = 1 then (0, Some ''database unavailable'')
              else if ctx = 2 then (13, None)
              else (3, None)),
      NewAPIError = (\<lambda>e. (e, demo_status e)),
      APIError_Error = (\<lambda>a. a),
      NewError = (\<lambda>t m e. demo_kind t @ m),
      Error = (\<lambda>e. e),
      ValidateID = (\<lambda>ID. if ID \<le> 0 then Some ''invalid ID'' else None),
      validateRequest = (\<lambda>j. if j = [] then Some ''name is required'' else None),
      ParseInt =
        (\<lambda>s. if s = ''7'' then (7, None)
             else if s = ''8'' then (8, None)
             else if s = ''9'' then (9, None)
             else if s = ''0'' then (0, None)
             else (0, Some ''invalid syntax'')),
      Unmarshal = (\<lambda>b. if b = ''{'' then ([], Some ''unexpected end of JSON input'') else (b, None)),
      DomainListToCustomerJsonList = map snd,
      DomainToCustomerJson = snd,
      CustomerJsonToDomain = (\<lambda>j. (0, j)),
      set_ID = (\<lambda>c ID. (ID, snd c)),
      ToGetKPIJson = (\<lambda>k. k),
      Marshal_GetCustomersResponse =
        (\<lambda>js. if ''bob'' \<in> set js then ([], Some ''unsupported value'') else (concat js, None)),
      Marshal_GetCustomerResponse =
        (\<lambda>j. if j = ''bob'' then ([], Some ''unsupported value'') else (j, None)),
      Marshal_KPI = (\<lambda>q. if q = 13 then ([], Some ''unsupported value'') else (''kpi'', None))\<rparr>"

definition demo_request :: "string \<Rightarrow> string \<Rightarrow> string \<Rightarrow> string \<Rightarrow> request" where
  "demo_request m res ident body =
     \<lparr>HTTPMethod = m, Resource = res, PathParameters = [(''id'', ident)], Body = body\<rparr>"

section \<open>Properties of the sequential functions\<close>

text \<open>
  C4. \<open>getRegisteredServices\<close> returns an error exactly when the registry's answer
  carries an error or an empty list; when the registry gives a non-empty list and no
  error, it returns that list, unchanged, and no error.
\<close>

theorem getRegisteredServices_fails_iff:
  "(snd (snd (getRegisteredServices cfg (services, err))) \<noteq> None
      \<longleftrightarrow> (err \<noteq> None \<or> services = []))
   \<and> (err = None \<and> services \<noteq> [] \<longrightarrow>
        snd (getRegisteredServices cfg (services, err)) = (services, None))"
  by (simp add: getRegisteredServices_def split: option.split)

theorem getRegisteredServices_fails_iff_witness:
  "snd (getRegisteredServices cfg_orders ([svc_orders], None)) = ([svc_orders], None) \<and>
   snd (snd (getRegisteredServices cfg_orders ([], None))) = Some (ErrNoInstances ''orders'') \<and>
   snd (snd (getRegisteredServices cfg_orders ([svc_orders], Some (CollaboratorError ''timeout''))))
     = Some (ErrRetrievingService ''orders'' (CollaboratorError ''timeout''))"
  using getRegisteredServices_fails_iff [of cfg_orders "[svc_orders]" None]
    getRegisteredServices_fails_iff [of cfg_orders "[]" None]
    getRegisteredServices_fails_iff
      [of cfg_orders "[svc_orders]" "Some (CollaboratorError ''timeout'')"]
  by (simp add: getRegisteredServices_def cfg_orders_def)

text \<open>
  C7. \<open>GetServerName\<close> on a handle whose record list is not empty returns the name
  of the first record; on a handle with no records it returns no value: the index is out
  of range and the call panics.
\<close>

theorem GetServerName_first_record:
  "(\<forall>r rest. client_rs h = r # rest \<longrightarrow> GetServerName h = Inr (Name r))
   \<and> (client_rs h = [] \<longrightarrow> GetServerName h = Inl IndexOutOfRange)"
  by (simp add: GetServerName_def)

theorem GetServerName_first_record_witness:
  "GetServerName \<lparr>client_c = None, client_rs = [svc_orders]\<rparr> = Inr ''orders'' \<and>
   GetServerName \<lparr>client_c = Some (GrpcClient (ConsulRegistry ''consul:8500'')), client_rs = []\<rparr>
     = Inl IndexOutOfRange"
  using GetServerName_first_record [of "\<lparr>client_c = None, client_rs = [svc_orders]\<rparr>"]
    GetServerName_first_record
      [of "\<lparr>client_c = Some (GrpcClient (ConsulRegistry ''consul:8500'')), client_rs = []\<rparr>"]
  by (simp add: svc_orders_def)

lemma getRegisteredServices_err:
  "snd (snd (getRegisteredServices cfg resp)) \<noteq> None \<longleftrightarrow> lookup_fails resp"
  by (cases resp) (auto simp: lookup_fails_def getRegisteredServices_def split: option.split)

lemma getRegisteredServices_ok:
  "services \<noteq> [] \<Longrightarrow>
   snd (getRegisteredServices cfg (services, None)) = (services, None)"
  by (simp add: getRegisteredServices_def)

section \<open>Properties of the process\<close>

lemma run_Nil [simp]: "run setupf reg [] s = s"
  by (simp add: run_def)

lemma run_snoc [simp]: "run setupf reg (sched @ [a]) s = step setupf reg (run setupf reg sched s) a"
  by (simp add: run_def)

lemma run_Cons [simp]: "run setupf reg (a # sched) s = run setupf reg sched (step setupf reg s a)"
  by (simp add: run_def)

lemma length_callers_caller_step [simp]:
  "length (callers (caller_step setupf i cfg pc s)) = length (callers s)"
  by (simp add: caller_step_def split: caller_pc.split once_t.split prod.split option.split)

lemma callers_bg_step [simp]: "callers (bg_step reg j cfg pc s) = callers s"
  by (simp add: bg_step_def split: bg_pc.split prod.split option.split)

lemma length_callers_step [simp]: "length (callers (step setupf reg s a)) = length (callers s)"
  by (cases a) (simp_all add: step_def)

lemma length_callers_run [simp]:
  "length (callers (run setupf reg sched s)) = length (callers s)"
  by (induction sched arbitrary: s) simp_all

lemma length_callers_start [simp]: "length (callers (start cfgs)) = length cfgs"
  by (simp add: start_def)

text \<open>
  The definitions that evaluate a run on concrete data.
\<close>

lemmas ev = step_def caller_step_def bg_step_def start_def getRegisteredServices_def
  setupClient_def printService_def printNode_def lookup_fails_def
  cfg_orders_def svc_orders_def reg_third_def reg_down_def setup_broken_def

subsection \<open>The one-shot guard\<close>

lemma once_inv_start: "once_inv (start cfgs)"
  by (simp add: once_inv_def start_def pc_of_def)

lemma once_inv_caller:
  assumes "once_inv s" and "i < length (callers s)"
  shows "once_inv (caller_step setupf i (fst (callers s ! i)) (snd (callers s ! i)) s)"
proof (cases "snd (callers s ! i)")
  case AtOnce
  show ?thesis
  proof (cases "once s")
    case OnceFresh
    have "pc_of s k = AtOnce" if "k < length (callers s)" for k
      using assms(1) OnceFresh that
      by (cases "pc_of s k") (auto simp: once_inv_def dest!: spec[of _ k])
    then have "\<forall>k<length (callers s). pc_of s k = AtOnce" by simp
    with assms AtOnce OnceFresh show ?thesis
      by (auto simp: once_inv_def caller_step_def pc_of_def alone_def nth_list_update)
  next
    case OnceRunning
    with assms AtOnce show ?thesis by (simp add: caller_step_def)
  next
    case OnceDone
    with assms AtOnce show ?thesis 
      by (auto simp: once_inv_def caller_step_def pc_of_def alone_def nth_list_update split: caller_pc.splits)
  qed
next
  case AtSetup
  with assms have "once s = OnceRunning \<and> setups s = 0 \<and> instance_g s = None \<and> alone s i"
    by (auto simp: once_inv_def pc_of_def)
  with assms AtSetup show ?thesis
    by (auto simp: once_inv_def caller_step_def pc_of_def alone_def nth_list_update split: prod.split option.split)
next
  case (AtAssign clt)
  with assms have "once s = OnceRunning \<and> setups s = 1 \<and> instance_g s = None \<and> alone s i"
    by (auto simp: once_inv_def pc_of_def)
  with assms AtAssign show ?thesis
    by (auto simp: once_inv_def caller_step_def pc_of_def alone_def nth_list_update)
next
  case AtGo
  with assms have "once s = OnceRunning \<and> setups s = 1 \<and> instance_g s \<noteq> None \<and> alone s i"
    by (auto simp: once_inv_def pc_of_def)
  with assms AtGo show ?thesis
    by (auto simp: once_inv_def caller_step_def pc_of_def alone_def nth_list_update)
next
  case AtWait
  with assms have "once s = OnceDone"
    by (auto simp: once_inv_def pc_of_def)
  with assms AtWait show ?thesis
    by (auto simp: once_inv_def caller_step_def pc_of_def alone_def nth_list_update split: caller_pc.splits)
next
  case AtReturn
  with assms have "once s = OnceDone \<and> instance_g s \<noteq> None"
    by (auto simp: once_inv_def pc_of_def)
  with assms AtReturn show ?thesis
    by (auto simp: once_inv_def caller_step_def pc_of_def alone_def nth_list_update split: caller_pc.splits)
next
  case (Returned h e)
  with assms show ?thesis
    by (simp add: caller_step_def)
qed

lemma once_inv_bg:
  assumes "once_inv s" and "j < length (tasks s)"
  shows "once_inv (bg_step reg j (fst (tasks s ! j)) (snd (tasks s ! j)) s)"
proof -
  from assms have d: "once s = OnceDone \<and> initError s = None \<and> instance_g s \<noteq> None \<and> length (tasks s) = 1 \<and> setups s = 1"
    by (cases "once s") (auto simp: once_inv_def)
  show ?thesis
  proof (cases "snd (tasks s ! j)")
    case BgLookup
    with assms d show ?thesis
      by (auto simp: once_inv_def bg_step_def pc_of_def alone_def split: prod.split option.split caller_pc.splits)
  next
    case (BgPublish v)
    with assms d show ?thesis
      by (auto simp: once_inv_def bg_step_def pc_of_def alone_def split: prod.split option.split caller_pc.splits)
  next
    case BgDone
    with assms show ?thesis by (simp add: bg_step_def)
  qed
qed

lemma once_inv_step: "once_inv s \<Longrightarrow> once_inv (step setupf reg s a)"
  by (cases a) (simp_all add: step_def once_inv_caller once_inv_bg)

lemma once_inv_run: "once_inv s \<Longrightarrow> once_inv (run setupf reg sched s)"
  by (induction sched arbitrary: s) (simp_all add: once_inv_step)

lemma once_inv_reach: "once_inv (run setupf reg sched (start cfgs))"
  by (simp add: once_inv_run once_inv_start)

lemma once_inv_pc:
  "once_inv s \<Longrightarrow> j < length (callers s) \<Longrightarrow>
   (case pc_of s j of
      AtOnce \<Rightarrow> True
    | AtSetup \<Rightarrow> once s = OnceRunning \<and> setups s = 0 \<and> instance_g s = None \<and> alone s j
    | AtAssign clt \<Rightarrow> once s = OnceRunning \<and> setups s = 1 \<and> instance_g s = None \<and> alone s j
    | AtGo \<Rightarrow> once s = OnceRunning \<and> setups s = 1 \<and> instance_g s \<noteq> None \<and> alone s j
    | AtWait \<Rightarrow> once s = OnceDone
    | AtReturn \<Rightarrow> once s = OnceDone \<and> instance_g s \<noteq> None
    | Returned h e \<Rightarrow> once s = OnceDone \<and> instance_g s \<noteq> None \<and> h \<noteq> None \<and> e = None)"
  by (simp add: once_inv_def)

lemma once_inv_setups: "once_inv s \<Longrightarrow> setups s \<le> 1"
  by (simp add: once_inv_def)

lemma once_inv_tasks: "once_inv s \<Longrightarrow> length (tasks s) \<le> 1"
  by (cases "once s") (auto simp: once_inv_def)

lemma once_inv_past:
  "once_inv s \<Longrightarrow> j < length (callers s) \<Longrightarrow> past_once (pc_of s j) \<Longrightarrow>
   once s = OnceDone \<and> setups s = 1"
  using once_inv_pc [of s j] by (cases "pc_of s j") (auto simp: once_inv_def)

lemma initError_step_setupClient:
  "initError (step setupClient reg s a) = initError s"
  by (cases a)
    (auto simp: step_def caller_step_def bg_step_def setupClient_def
      split: caller_pc.split once_t.split prod.split option.split bg_pc.split)

lemma initError_run_setupClient:
  "initError (run setupClient reg sched s) = initError s"
  by (induction sched arbitrary: s) (simp_all add: initError_step_setupClient)

text \<open>
  C8. For any number of calls of \<open>newClient\<close> (the list \<open>cfgs\<close> of their
  arguments, so also two or more) and any interleaving of their steps and the discovery
  goroutine's, the setup sequence runs exactly once: \<open>setupClient\<close> is never called
  twice and no second goroutine is started, and as soon as any call has left \<open>once.Do\<close>,
  \<open>setupClient\<close> has been called once, a handle is published and one goroutine has been
  started.
\<close>

theorem setup_sequence_runs_once:
  "setups (run setupClient reg sched (start cfgs)) \<le> 1 \<and>
   length (tasks (run setupClient reg sched (start cfgs))) \<le> 1 \<and>
   (\<forall>i<length cfgs.
      past_once (snd (callers (run setupClient reg sched (start cfgs)) ! i)) \<longrightarrow>
        setups (run setupClient reg sched (start cfgs)) = 1 \<and>
        instance_g (run setupClient reg sched (start cfgs)) \<noteq> None \<and>
        length (tasks (run setupClient reg sched (start cfgs))) = 1)"
proof -
  let ?s = "run setupClient reg sched (start cfgs)"
  have inv: "once_inv ?s" by (rule once_inv_reach)
  have ie: "initError ?s = None"
    by (simp add: initError_run_setupClient start_def)
  have "setups ?s = 1 \<and> instance_g ?s \<noteq> None \<and> length (tasks ?s) = 1"
    if "i < length cfgs" and "past_once (snd (callers ?s ! i))" for i
  proof -
    from that inv have "once ?s = OnceDone \<and> setups ?s = 1"
      using once_inv_past [of ?s i] by (simp add: pc_of_def)
    with inv ie show ?thesis by (auto simp: once_inv_def)
  qed
  with once_inv_setups [OF inv] once_inv_tasks [OF inv] show ?thesis by blast
qed

theorem setup_sequence_runs_once_witness:
  "setups (run setupClient reg_third
      [Caller 0, Caller 1, Caller 0, Caller 2, Caller 0, Caller 0, Caller 1, Caller 1]
      (start [cfg_orders, cfg_orders, cfg_orders])) = 1 \<and>
   length (tasks (run setupClient reg_third
      [Caller 0, Caller 1, Caller 0, Caller 2, Caller 0, Caller 0, Caller 1, Caller 1]
      (start [cfg_orders, cfg_orders, cfg_orders]))) = 1 \<and>
   snd (callers (run setupClient reg_third
      [Caller 0, Caller 1, Caller 0, Caller 2, Caller 0, Caller 0, Caller 1, Caller 1]
      (start [cfg_orders, cfg_orders, cfg_orders])) ! 1) = AtReturn \<and>
   snd (callers (run setupClient reg_third
      [Caller 0, Caller 1, Caller 0, Caller 2, Caller 0, Caller 0, Caller 1, Caller 1]
      (start [cfg_orders, cfg_orders, cfg_orders])) ! 2) = AtOnce"
proof -
  have "past_once (snd (callers (run setupClient reg_third
      [Caller 0, Caller 1, Caller 0, Caller 2, Caller 0, Caller 0, Caller 1, Caller 1]
      (start [cfg_orders, cfg_orders, cfg_orders])) ! 1))"
    by (simp add: ev)
  with setup_sequence_runs_once [of reg_third
      "[Caller 0, Caller 1, Caller 0, Caller 2, Caller 0, Caller 0, Caller 1, Caller 1]"
      "[cfg_orders, cfg_orders, cfg_orders]"]
  show ?thesis by (simp add: ev)
qed

text \<open>
  C9. \<open>setupClient\<close> returns a nil error for every configuration, and so in every
  run of the program \<open>initError\<close> stays nil: the branch of line 32 is never taken.
\<close>

theorem setupClient_never_fails:
  "snd (setupClient cfg) = None \<and>
   initError (run setupClient reg sched (start cfgs)) = None"
  by (simp add: initError_run_setupClient) (simp add: setupClient_def start_def)

subsection \<open>A transport factory that fails\<close>







subsection \<open>When \<open>newClient\<close> returns\<close>

lemma instance_step_mono:
  "instance_g s \<noteq> None \<Longrightarrow> instance_g (step setupf reg s a) \<noteq> None"
  by (cases a)
    (auto simp: step_def caller_step_def bg_step_def
      split: caller_pc.split once_t.split prod.split option.split bg_pc.split)

lemma step_returns:
  assumes "i < length (callers s)"
    and "\<forall>h' e'. snd (callers s ! i) \<noteq> Returned h' e'"
    and "snd (callers (step setupf reg s a) ! i) = Returned h e"
  shows "a = Caller i \<and> snd (callers s ! i) = AtReturn \<and> h = instance_g s \<and> e = None"
proof (cases a)
  case (Caller k)
  show ?thesis
  proof (cases "k < length (callers s)")
    case True
    with assms Caller show ?thesis
      by (cases "snd (callers s ! k)"; cases "once s"; cases "setupf (fst (callers s ! k))")
        (auto simp: step_def caller_step_def nth_list_update split: if_splits option.splits)
  next
    case False
    with assms Caller show ?thesis by (simp add: step_def)
  qed
next
  case (Bg j)
  with assms show ?thesis by (simp add: step_def split: if_splits)
qed

text \<open>
  C6. In every reachable state, a call of \<open>newClient\<close> that has returned did so with a
  handle that is not nil and a nil error, and a handle is published; the step in which a
  call returns is its own, is taken with a handle published, and returns the handle that
  is shared at that moment. A published handle stays published. A call in the wait loop
  while no handle is published stays there, however often it is scheduled: there is no
  timeout.
\<close>

theorem newClient_returns_only_when_ready:
  assumes "i < length cfgs" and "s = run setupf reg sched (start cfgs)"
  shows "(\<forall>h e. snd (callers s ! i) = Returned h e \<longrightarrow>
            instance_g s \<noteq> None \<and> h \<noteq> None \<and> e = None) \<and>
         (\<forall>h e. (\<forall>h' e'. snd (callers s ! i) \<noteq> Returned h' e') \<and>
                snd (callers (step setupf reg s a) ! i) = Returned h e \<longrightarrow>
            a = Caller i \<and> instance_g s \<noteq> None \<and> h = instance_g s \<and> e = None) \<and>
         (instance_g s \<noteq> None \<longrightarrow> instance_g (step setupf reg s a) \<noteq> None) \<and>
         (snd (callers s ! i) = AtWait \<and> instance_g s = None \<longrightarrow>
            step setupf reg s (Caller i) = s)"
proof -
  have inv: "once_inv s" using assms(2) by (simp add: once_inv_reach)
  have len: "i < length (callers s)" using assms by simp
  have a: "instance_g s \<noteq> None \<and> h \<noteq> None \<and> e = None"
    if "snd (callers s ! i) = Returned h e" for h e
    using once_inv_pc [OF inv len] that by (simp add: pc_of_def)
  have b: "a = Caller i \<and> instance_g s \<noteq> None \<and> h = instance_g s \<and> e = None"
    if "\<forall>h' e'. snd (callers s ! i) \<noteq> Returned h' e'"
      and "snd (callers (step setupf reg s a) ! i) = Returned h e" for h e
  proof -
    from step_returns [OF len that]
    have r: "a = Caller i \<and> snd (callers s ! i) = AtReturn \<and> h = instance_g s \<and> e = None" .
    with once_inv_pc [OF inv len] show ?thesis by (simp add: pc_of_def)
  qed
  have c: "instance_g s \<noteq> None \<longrightarrow> instance_g (step setupf reg s a) \<noteq> None"
    by (simp add: instance_step_mono)
  have d: "snd (callers s ! i) = AtWait \<and> instance_g s = None \<longrightarrow> step setupf reg s (Caller i) = s"
    using len by (simp add: step_def caller_step_def)
  from a b c d show ?thesis by blast
qed

theorem newClient_returns_only_when_ready_witness:
  "snd (callers (run setupClient reg_third
      [Caller 0, Caller 0, Caller 0, Caller 0, Caller 0, Caller 0] (start [cfg_orders])) ! 0)
     = Returned (Some \<lparr>client_c = Some (GrpcClient (ConsulRegistry ''consul:8500'')), client_rs = []\<rparr>) None \<and>
   instance_g (run setupClient reg_third
      [Caller 0, Caller 0, Caller 0, Caller 0, Caller 0] (start [cfg_orders]))
     = Some \<lparr>client_c = Some (GrpcClient (ConsulRegistry ''consul:8500'')), client_rs = []\<rparr>"
proof -
  have i: "(0::nat) < length [cfg_orders]" by simp
  from newClient_returns_only_when_ready [OF i refl,
      of setupClient reg_third "[Caller 0, Caller 0, Caller 0, Caller 0, Caller 0]" "Caller 0"]
  show ?thesis by (simp add: ev)
qed

subsection \<open>The discovery goroutine\<close>

lemma bg_lookup_fail:
  assumes "lookup_fails (reg (lookups s) (consulAddress cfg) (serverName cfg))"
  shows "tasks (bg_step reg j cfg BgLookup s) = tasks s \<and>
         lookups (bg_step reg j cfg BgLookup s) = lookups s + 1 \<and>
         instance_g (bg_step reg j cfg BgLookup s) = instance_g s"
proof -
  obtain p r e where "getRegisteredServices cfg (reg (lookups s) (consulAddress cfg) (serverName cfg)) = (p, r, Some e)"
    using assms getRegisteredServices_err [of cfg "reg (lookups s) (consulAddress cfg) (serverName cfg)"]
    by (cases "getRegisteredServices cfg (reg (lookups s) (consulAddress cfg) (serverName cfg))") auto
  then show ?thesis by (simp add: bg_step_def)
qed

lemma bg_lookup_ok:
  assumes "reg (lookups s) (consulAddress cfg) (serverName cfg) = (svcs, None)" and "svcs \<noteq> []"
  shows "tasks (bg_step reg j cfg BgLookup s) = (tasks s)[j := (cfg, BgPublish svcs)] \<and>
         lookups (bg_step reg j cfg BgLookup s) = lookups s + 1 \<and>
         instance_g (bg_step reg j cfg BgLookup s) = instance_g s"
  using assms by (simp add: bg_step_def getRegisteredServices_def)

lemma bg_publish:
  "tasks (bg_step reg j cfg (BgPublish v) s) = (tasks s)[j := (cfg, BgDone)] \<and>
   lookups (bg_step reg j cfg (BgPublish v) s) = lookups s \<and>
   instance_g (bg_step reg j cfg (BgPublish v) s) = Some \<lparr>client_c = None, client_rs = v\<rparr>"
  by (simp add: bg_step_def)

lemma lookups_Bg_step:
  "j < length (tasks s) \<Longrightarrow> snd (tasks s ! j) = BgLookup \<Longrightarrow>
   lookups (step setupf reg s (Bg j)) = lookups s + 1"
  by (simp add: step_def bg_step_def split: prod.split option.split)

lemma retry_inv_start: "retry_inv (start cfgs)"
  by (simp add: retry_inv_def start_def)

lemma retry_inv_step:
  assumes f: "always_fails reg" and inv: "retry_inv s"
  shows "retry_inv (step setupf reg s a)"
proof (cases a)
  case (Caller i)
  show ?thesis
  proof (cases "i < length (callers s)")
    case True
    with inv Caller show ?thesis
      by (cases "snd (callers s ! i)"; cases "once s"; cases "setupf (fst (callers s ! i))")
        (auto simp: retry_inv_def step_def caller_step_def nth_append split: option.splits)
  next
    case False
    with inv Caller show ?thesis by (simp add: step_def)
  qed
next
  case (Bg j)
  show ?thesis
  proof (cases "j < length (tasks s)")
    case True
    with inv have pc: "snd (tasks s ! j) = BgLookup" by (simp add: retry_inv_def)
    let ?cfg = "fst (tasks s ! j)"
    from f have "lookup_fails (reg (lookups s) (consulAddress ?cfg) (serverName ?cfg))"
      by (simp add: always_fails_def)
    then have "tasks (bg_step reg j ?cfg BgLookup s) = tasks s \<and>
         lookups (bg_step reg j ?cfg BgLookup s) = lookups s + 1 \<and>
         instance_g (bg_step reg j ?cfg BgLookup s) = instance_g s"
      by (rule bg_lookup_fail)
    with inv True Bg pc show ?thesis
      by (simp add: retry_inv_def step_def)
  next
    case False
    with inv Bg show ?thesis by (simp add: step_def)
  qed
qed

lemma retry_inv_run:
  assumes f: "always_fails reg"
  shows "retry_inv s \<Longrightarrow> retry_inv (run setupf reg sched s)"
  by (induction sched arbitrary: s) (simp_all add: retry_inv_step [OF f])

text \<open>
  C5. When every lookup fails (an error or an empty list), then in every reachable
  state every discovery goroutine is still at the top of its loop, the shared handle, if
  there is one, has no records, and the goroutine's next step is one more lookup.
\<close>

theorem discovery_retries_forever:
  assumes "\<forall>k a n. lookup_fails (reg k a n)" and "s = run setupf reg sched (start cfgs)"
  shows "(\<forall>j<length (tasks s). snd (tasks s ! j) = BgLookup) \<and>
         (\<forall>h. instance_g s = Some h \<longrightarrow> client_rs h = []) \<and>
         (\<forall>j<length (tasks s). lookups (step setupf reg s (Bg j)) = lookups s + 1)"
proof -
  have "retry_inv s"
    unfolding assms(2) using assms(1)
    by (intro retry_inv_run retry_inv_start) (simp add: always_fails_def)
  then show ?thesis
    by (auto simp: retry_inv_def lookups_Bg_step)
qed

theorem discovery_retries_forever_witness:
  "map snd (tasks (run setupClient reg_down
      [Caller 0, Caller 0, Caller 0, Caller 0, Bg 0, Bg 0, Bg 0] (start [cfg_orders]))) = [BgLookup] \<and>
   lookups (run setupClient reg_down
      [Caller 0, Caller 0, Caller 0, Caller 0, Bg 0, Bg 0, Bg 0] (start [cfg_orders])) = 3 \<and>
   instance_g (run setupClient reg_down
      [Caller 0, Caller 0, Caller 0, Caller 0, Bg 0, Bg 0, Bg 0] (start [cfg_orders]))
     = Some \<lparr>client_c = Some (GrpcClient (ConsulRegistry ''consul:8500'')), client_rs = []\<rparr>"
proof -
  have h: "\<forall>k a n. lookup_fails (reg_down k a n)" by (simp add: reg_down_def lookup_fails_def)
  from discovery_retries_forever [OF h refl, of setupClient
      "[Caller 0, Caller 0, Caller 0, Caller 0, Bg 0, Bg 0, Bg 0]" "[cfg_orders]"]
  show ?thesis by (simp add: ev)
qed

text \<open>
  C3. A discovery goroutine whose lookup gives a non-empty list and no error replaces
  the shared handle, whatever it was, by a handle that holds these records and no
  transport: the field \<open>c\<close> of the new handle is nil.
\<close>

theorem discovery_replaces_handle:
  assumes "j < length (tasks s)" and "tasks s ! j = (cfg, BgLookup)"
    and "reg (lookups s) (consulAddress cfg) (serverName cfg) = (regSrv, None)"
    and "regSrv \<noteq> []"
  shows "instance_g (run setupf reg [Bg j, Bg j] s) = Some \<lparr>client_c = None, client_rs = regSrv\<rparr>"
  using assms by (simp add: step_def bg_step_def getRegisteredServices_def)

theorem discovery_replaces_handle_witness:
  "instance_g (run setupClient reg_third
      [Caller 0, Caller 0, Caller 0, Caller 0, Bg 0, Bg 0] (start [cfg_orders]))
     = Some \<lparr>client_c = Some (GrpcClient (ConsulRegistry ''consul:8500'')), client_rs = []\<rparr> \<and>
   instance_g (run setupClient reg_third [Bg 0, Bg 0] (run setupClient reg_third
      [Caller 0, Caller 0, Caller 0, Caller 0, Bg 0, Bg 0] (start [cfg_orders])))
     = Some \<lparr>client_c = None, client_rs = [svc_orders]\<rparr>"
proof -
  let ?s = "run setupClient reg_third
      [Caller 0, Caller 0, Caller 0, Caller 0, Bg 0, Bg 0] (start [cfg_orders])"
  have a: "0 < length (tasks ?s)" by (simp add: ev)
  have b: "tasks ?s ! 0 = (cfg_orders, BgLookup)" by (simp add: ev)
  have c: "reg_third (lookups ?s) (consulAddress cfg_orders) (serverName cfg_orders) = ([svc_orders], None)"
    by (simp add: ev)
  have d: "[svc_orders] \<noteq> []" by simp
  from discovery_replaces_handle
    [where j = 0 and s = ?s and cfg = cfg_orders and reg = reg_third
       and regSrv = "[svc_orders]" and setupf = setupClient, OF a b c d]
  show ?thesis by (simp add: ev)
qed

lemma disc_inv_start: "disc_inv M svcs (start cfgs)"
  by (simp add: disc_inv_def start_def)

lemma disc_inv_caller:
  assumes o: "once_inv s" and d: "disc_inv M svcs s" and i: "i < length (callers s)"
  shows "disc_inv M svcs (caller_step setupf i (fst (callers s ! i)) (snd (callers s ! i)) s)"
proof (cases "snd (callers s ! i)")
  case AtOnce
  with d show ?thesis
    by (cases "once s") (auto simp: disc_inv_def caller_step_def split: bg_pc.split)
next
  case AtSetup
  with d show ?thesis
    by (auto simp: disc_inv_def caller_step_def split: prod.split option.split bg_pc.split)
next
  case (AtAssign clt)
  with once_inv_pc [OF o i] have "tasks s = []"
    using o by (simp add: pc_of_def once_inv_def)
  with d AtAssign show ?thesis
    by (auto simp: disc_inv_def caller_step_def split: bg_pc.split)
next
  case AtGo
  with once_inv_pc [OF o i] have "tasks s = []"
    using o by (simp add: pc_of_def once_inv_def)
  with d AtGo show ?thesis
    by (auto simp: disc_inv_def caller_step_def split: bg_pc.split)
next
  case AtWait
  with d show ?thesis
    by (auto simp: disc_inv_def caller_step_def split: bg_pc.split)
next
  case AtReturn
  with d show ?thesis
    by (auto simp: disc_inv_def caller_step_def split: bg_pc.split)
next
  case (Returned h e)
  with d show ?thesis
    by (simp add: caller_step_def)
qed

lemma disc_inv_bg:
  assumes fs: "first_success reg M svcs"
    and o: "once_inv s" and d: "disc_inv M svcs s" and j: "j < length (tasks s)"
  shows "disc_inv M svcs (bg_step reg j (fst (tasks s ! j)) (snd (tasks s ! j)) s)"
proof -
  from o j have j0: "j = 0" and l1: "length (tasks s) = 1"
    using once_inv_tasks [OF o] by simp_all
  show ?thesis
  proof (cases "snd (tasks s ! j)")
    case BgLookup
    with d j have le: "lookups s \<le> M" by (auto simp: disc_inv_def split: bg_pc.split)
    show ?thesis
    proof (cases "lookups s < M")
      case True
      let ?cfg = "fst (tasks s ! j)"
      from True fs have "lookup_fails (reg (lookups s) (consulAddress ?cfg) (serverName ?cfg))"
        by (simp add: first_success_def)
      then have "tasks (bg_step reg j ?cfg BgLookup s) = tasks s \<and>
           lookups (bg_step reg j ?cfg BgLookup s) = lookups s + 1 \<and>
           instance_g (bg_step reg j ?cfg BgLookup s) = instance_g s"
        by (rule bg_lookup_fail)
      with d j BgLookup True j0 l1 show ?thesis
        by (auto simp: disc_inv_def split: bg_pc.split)
    next
      case False
      with le have eq: "lookups s = M" by simp
      let ?cfg = "fst (tasks s ! j)"
      from eq fs
      have "reg (lookups s) (consulAddress ?cfg) (serverName ?cfg) = (svcs, None)" and "svcs \<noteq> []"
        by (simp_all add: first_success_def)
      then have "tasks (bg_step reg j ?cfg BgLookup s) = (tasks s)[j := (?cfg, BgPublish svcs)] \<and>
           lookups (bg_step reg j ?cfg BgLookup s) = lookups s + 1 \<and>
           instance_g (bg_step reg j ?cfg BgLookup s) = instance_g s"
        by (rule bg_lookup_ok)
      with d j BgLookup eq j0 l1 show ?thesis
        by (auto simp: disc_inv_def split: bg_pc.split)
    qed
  next
    case (BgPublish v)
    with d j j0 l1 bg_publish [of reg j "fst (tasks s ! j)" v s] show ?thesis
      by (auto simp: disc_inv_def split: bg_pc.split)
  next
    case BgDone
    with d show ?thesis by (simp add: bg_step_def)
  qed
qed

lemma disc_inv_step:
  assumes fs: "first_success reg M svcs"
    and o: "once_inv s" and d: "disc_inv M svcs s"
  shows "disc_inv M svcs (step setupf reg s a)"
  using o d by (cases a) (simp_all add: step_def disc_inv_caller disc_inv_bg [OF fs])

lemma both_inv_run:
  assumes fs: "first_success reg M svcs"
  shows "once_inv s \<Longrightarrow> disc_inv M svcs s \<Longrightarrow> disc_inv M svcs (run setupf reg sched s)"
  by (induction sched arbitrary: s) (simp_all add: once_inv_step disc_inv_step [OF fs])

lemma progress_step:
  assumes fs: "first_success reg M svcs"
    and o: "once_inv s" and d: "disc_inv M svcs s" and t: "tasks s \<noteq> []"
  shows "tasks (step setupf reg s a) \<noteq> [] \<and>
         progress M (step setupf reg s a) =
           (if a = Bg 0 then min (M + 2) (progress M s + 1) else progress M s)"
proof -
  from o t have l1: "length (tasks s) = 1"
    using once_inv_tasks [OF o] by (cases "tasks s") simp_all
  then obtain t0 where ts: "tasks s = [t0]"
    by (cases "tasks s") simp_all
  from o t have dn: "once s = OnceDone"
    by (cases "once s") (auto simp: once_inv_def)
  show ?thesis
  proof (cases a)
    case (Caller i)
    show ?thesis
    proof (cases "i < length (callers s)")
      case True
      from once_inv_pc [OF o True] dn
      have "snd (callers s ! i) \<noteq> AtSetup \<and> snd (callers s ! i) \<noteq> AtGo \<and>
            (\<forall>clt. snd (callers s ! i) \<noteq> AtAssign clt)"
        by (auto simp: pc_of_def)
      with Caller True ts dn show ?thesis
        by (cases "snd (callers s ! i)")
          (auto simp: step_def caller_step_def progress_def split: bg_pc.split)
    next
      case False
      with Caller t show ?thesis by (simp add: step_def)
    qed
  next
    case (Bg j)
    show ?thesis
    proof (cases "j = 0")
      case False
      with Bg l1 t show ?thesis by (simp add: step_def)
    next
      case True
      show ?thesis
      proof (cases "snd t0")
        case BgLookup
        with d ts have le: "lookups s \<le> M" by (auto simp: disc_inv_def)
        show ?thesis
        proof (cases "lookups s < M")
          case lt: True
          let ?cfg = "fst t0"
          from lt fs have "lookup_fails (reg (lookups s) (consulAddress ?cfg) (serverName ?cfg))"
            by (simp add: first_success_def)
          then have "tasks (bg_step reg 0 ?cfg BgLookup s) = tasks s \<and>
               lookups (bg_step reg 0 ?cfg BgLookup s) = lookups s + 1 \<and>
               instance_g (bg_step reg 0 ?cfg BgLookup s) = instance_g s"
            by (rule bg_lookup_fail)
          with Bg True ts BgLookup lt show ?thesis
            by (simp add: step_def progress_def)
        next
          case False
          with le have eq: "lookups s = M" by simp
          let ?cfg = "fst t0"
          from eq fs
          have "reg (lookups s) (consulAddress ?cfg) (serverName ?cfg) = (svcs, None)" and "svcs \<noteq> []"
            by (simp_all add: first_success_def)
          then have "tasks (bg_step reg 0 ?cfg BgLookup s) = (tasks s)[0 := (?cfg, BgPublish svcs)] \<and>
               lookups (bg_step reg 0 ?cfg BgLookup s) = lookups s + 1 \<and>
               instance_g (bg_step reg 0 ?cfg BgLookup s) = instance_g s"
            by (rule bg_lookup_ok)
          with Bg True ts BgLookup eq show ?thesis
            by (simp add: step_def progress_def)
        qed
      next
        case (BgPublish v)
        with Bg True ts bg_publish [of reg 0 "fst t0" v s] show ?thesis
          by (simp add: step_def progress_def)
      next
        case BgDone
        with Bg True ts show ?thesis
          by (simp add: step_def bg_step_def progress_def)
      qed
    qed
  qed
qed

lemma progress_run:
  assumes fs: "first_success reg M svcs"
  shows "once_inv s \<Longrightarrow> disc_inv M svcs s \<Longrightarrow> tasks s \<noteq> [] \<Longrightarrow>
         progress M (run setupf reg sched s) = min (M + 2) (progress M s + count_list sched (Bg 0))"
proof (induction sched arbitrary: s)
  case Nil
  then have "progress M s \<le> M + 2"
    by (cases "tasks s"; cases "snd (hd (tasks s))") (auto simp: progress_def disc_inv_def)
  then show ?case by simp
next
  case (Cons a sched)
  have st: "tasks (step setupf reg s a) \<noteq> [] \<and>
         progress M (step setupf reg s a) =
           (if a = Bg 0 then min (M + 2) (progress M s + 1) else progress M s)"
    using Cons.prems by (intro progress_step [OF fs])
  have "progress M (run setupf reg sched (step setupf reg s a)) =
        min (M + 2) (progress M (step setupf reg s a) + count_list sched (Bg 0))"
    using Cons.prems st
    by (intro Cons.IH) (simp_all add: once_inv_step disc_inv_step [OF fs])
  with st show ?case by (auto simp: min_def)
qed

lemma progress_done:
  "disc_inv M svcs s \<Longrightarrow> length (tasks s) = 1 \<Longrightarrow> progress M s = M + 2 \<Longrightarrow>
   snd (tasks s ! 0) = BgDone"
  by (cases "tasks s"; cases "snd (hd (tasks s))") (auto simp: progress_def disc_inv_def)

text \<open>
  C2. When the lookups fail \<open>M\<close> times and the next one gives the non-empty list
  \<open>svcs\<close>, then in every reachable state at most \<open>M + 1\<close> lookups have been made; a
  goroutine that has ended has published the handle with exactly \<open>svcs\<close> and made
  exactly \<open>M + 1\<close> lookups; and once the goroutine is started, any schedule that gives it
  \<open>M + 2\<close> steps brings it to its end, with that handle published.
\<close>

theorem discovery_publishes_first_success:
  assumes "\<forall>k<M. \<forall>a n. lookup_fails (reg k a n)"
    and "\<forall>a n. reg M a n = (svcs, None)" and "svcs \<noteq> []"
    and "s = run setupf reg sched (start cfgs)"
  shows "lookups s \<le> M + 1 \<and>
         (\<forall>j<length (tasks s). snd (tasks s ! j) = BgDone \<longrightarrow>
            instance_g s = Some \<lparr>client_c = None, client_rs = svcs\<rparr> \<and> lookups s = M + 1) \<and>
         (tasks s \<noteq> [] \<and> M + 2 \<le> count_list sched' (Bg 0) \<longrightarrow>
            map snd (tasks (run setupf reg sched' s)) = [BgDone] \<and>
            instance_g (run setupf reg sched' s) = Some \<lparr>client_c = None, client_rs = svcs\<rparr> \<and>
            lookups (run setupf reg sched' s) = M + 1)"
proof -
  have fs: "first_success reg M svcs"
    using assms(1-3) by (simp add: first_success_def)
  have o: "once_inv s" using assms(4) by (simp add: once_inv_reach)
  have d: "disc_inv M svcs s"
    unfolding assms(4) by (intro both_inv_run [OF fs] once_inv_start disc_inv_start)
  have a: "lookups s \<le> M + 1" using d by (simp add: disc_inv_def)
  have b: "instance_g s = Some \<lparr>client_c = None, client_rs = svcs\<rparr> \<and> lookups s = M + 1"
    if "j < length (tasks s)" and "snd (tasks s ! j) = BgDone" for j
    using d that by (auto simp: disc_inv_def)
  have c: "map snd (tasks (run setupf reg sched' s)) = [BgDone] \<and>
           instance_g (run setupf reg sched' s) = Some \<lparr>client_c = None, client_rs = svcs\<rparr> \<and>
           lookups (run setupf reg sched' s) = M + 1"
    if t: "tasks s \<noteq> []" and n: "M + 2 \<le> count_list sched' (Bg 0)"
  proof -
    let ?s' = "run setupf reg sched' s"
    have o': "once_inv ?s'" using o by (rule once_inv_run)
    have d': "disc_inv M svcs ?s'" using o d by (rule both_inv_run [OF fs])
    have p: "progress M ?s' = M + 2"
      using progress_run [OF fs o d t, of setupf sched'] n by simp
    then have t': "tasks ?s' \<noteq> []" by (auto simp: progress_def)
    with once_inv_tasks [OF o'] have l1: "length (tasks ?s') = 1"
      by (cases "tasks ?s'") simp_all
    from progress_done [OF d' l1 p] have dn: "snd (tasks ?s' ! 0) = BgDone" .
    with l1 have m: "map snd (tasks ?s') = [BgDone]"
      by (cases "tasks ?s'") simp_all
    from d' l1 dn show ?thesis using m by (auto simp: disc_inv_def)
  qed
  from a b c show ?thesis by blast
qed

theorem discovery_publishes_first_success_witness:
  "lookups (run setupClient reg_third [Bg 0, Caller 0, Bg 0, Bg 0, Bg 0]
      (run setupClient reg_third [Caller 0, Caller 0, Caller 0, Caller 0] (start [cfg_orders]))) = 3 \<and>
   map snd (tasks (run setupClient reg_third [Bg 0, Caller 0, Bg 0, Bg 0, Bg 0]
      (run setupClient reg_third [Caller 0, Caller 0, Caller 0, Caller 0] (start [cfg_orders])))) = [BgDone] \<and>
   instance_g (run setupClient reg_third [Bg 0, Caller 0, Bg 0, Bg 0, Bg 0]
      (run setupClient reg_third [Caller 0, Caller 0, Caller 0, Caller 0] (start [cfg_orders])))
     = Some \<lparr>client_c = None, client_rs = [svc_orders]\<rparr>"
proof -
  have f: "\<forall>k<2. \<forall>a n. lookup_fails (reg_third k a n)"
    by (simp add: reg_third_def lookup_fails_def)
  have g: "\<forall>a n. reg_third 2 a n = ([svc_orders], None)" by (simp add: reg_third_def)
  have ne: "[svc_orders] \<noteq> []" by simp
  have t: "tasks (run setupClient reg_third [Caller 0, Caller 0, Caller 0, Caller 0] (start [cfg_orders])) \<noteq> []"
    by (simp add: ev)
  have n: "2 + 2 \<le> count_list [Bg 0, Caller 0, Bg 0, Bg 0, Bg 0] (Bg 0)" by simp
  from discovery_publishes_first_success [OF f g ne refl, of setupClient
      "[Caller 0, Caller 0, Caller 0, Caller 0]" "[cfg_orders]" "[Bg 0, Caller 0, Bg 0, Bg 0, Bg 0]"] t n
  show ?thesis by simp
qed

section \<open>Properties of the Lambda handler\<close>

lemma api_error_response_encoding: "api_error_response d e = failure_encoding d e"
  by (simp add: api_error_response_def failure_encoding_def split: prod.split)

lemma encoded_error: "encoded d (failure_encoding d e)"
  unfolding encoded_def by blast

lemma encoded_ok: "encoded d (\<lparr>StatusCode = StatusOK, Headers = json_headers, Body' = b\<rparr>, None)"
  unfolding encoded_def StatusOK_def by blast

lemma encoded_created:
  "encoded d (\<lparr>StatusCode = StatusCreated, Headers = json_headers, Body' = []\<rparr>, None)"
  unfolding encoded_def StatusCreated_def by blast

lemma encoded_no_content:
  "encoded d (\<lparr>StatusCode = StatusNoContent, Headers = json_headers, Body' = []\<rparr>, None)"
  unfolding encoded_def StatusNoContent_def by blast

lemma encoded_not_found:
  "encoded d (\<lparr>StatusCode = StatusNotFound, Headers = [], Body' = ''Not Found''\<rparr>, None)"
  unfolding encoded_def StatusNotFound_def by blast

lemmas enc = api_error_response_encoding encoded_error encoded_ok encoded_created
  encoded_no_content encoded_not_found

lemma encoded_GetCustomers: "encoded d (GetCustomers d ctx)"
  by (simp add: GetCustomers_def enc split: prod.split option.split)

lemma encoded_GetCustomer: "encoded d (GetCustomer d ctx r)"
  by (simp add: GetCustomer_def enc split: prod.split option.split)

lemma encoded_CreateCustomer: "encoded d (CreateCustomer d ctx r)"
  by (simp add: CreateCustomer_def enc split: prod.split option.split)

lemma encoded_UpdateCustomer: "encoded d (UpdateCustomer d ctx r)"
  by (simp add: UpdateCustomer_def Let_def enc split: prod.split option.split)

lemma encoded_DeleteCustomer: "encoded d (DeleteCustomer d ctx r)"
  by (simp add: DeleteCustomer_def enc split: prod.split option.split)

lemma encoded_GetKPI: "encoded d (GetKPI d ctx)"
  by (simp add: GetKPI_def enc split: prod.split option.split)

lemma encoded_HandleRequest: "encoded d (HandleRequest d ctx r)"
  by (simp add: HandleRequest_def enc encoded_GetCustomers encoded_GetCustomer
      encoded_CreateCustomer encoded_UpdateCustomer encoded_DeleteCustomer encoded_GetKPI)

lemma encoded_nil: "encoded d p \<Longrightarrow> snd p = None"
  unfolding encoded_def by (auto simp: failure_encoding_def)

lemma handlers_nil:
  "snd (HandleRequest d ctx r) = None \<and>
   snd (GetCustomers d ctx) = None \<and>
   snd (GetCustomer d ctx r) = None \<and>
   snd (CreateCustomer d ctx r) = None \<and>
   snd (UpdateCustomer d ctx r) = None \<and>
   snd (DeleteCustomer d ctx r) = None \<and>
   snd (GetKPI d ctx) = None"
proof -
  have "snd (HandleRequest d ctx r) = None"
    using encoded_HandleRequest by (rule encoded_nil)
  moreover have "snd (GetCustomers d ctx) = None"
    using encoded_GetCustomers by (rule encoded_nil)
  moreover have "snd (GetCustomer d ctx r) = None"
    using encoded_GetCustomer by (rule encoded_nil)
  moreover have "snd (CreateCustomer d ctx r) = None"
    using encoded_CreateCustomer by (rule encoded_nil)
  moreover have "snd (UpdateCustomer d ctx r) = None"
    using encoded_UpdateCustomer by (rule encoded_nil)
  moreover have "snd (DeleteCustomer d ctx r) = None"
    using encoded_DeleteCustomer by (rule encoded_nil)
  moreover have "snd (GetKPI d ctx) = None"
    using encoded_GetKPI by (rule encoded_nil)
  ultimately show ?thesis by simp
qed

lemma HandleRequest_routes:
  "(HTTPMethod r = ''GET'' \<and> Resource r = ''/customers'' \<longrightarrow>
      HandleRequest d ctx r = GetCustomers d ctx) \<and>
   (HTTPMethod r = ''GET'' \<and> Resource r = ''/customers/{id}'' \<longrightarrow>
      HandleRequest d ctx r = GetCustomer d ctx r) \<and>
   (HTTPMethod r = ''POST'' \<and> Resource r = ''/customers'' \<longrightarrow>
      HandleRequest d ctx r = CreateCustomer d ctx r) \<and>
   (HTTPMethod r = ''PUT'' \<and> Resource r = ''/customers/{id}'' \<longrightarrow>
      HandleRequest d ctx r = UpdateCustomer d ctx r) \<and>
   (HTTPMethod r = ''DELETE'' \<and> Resource r = ''/customers/{id}'' \<longrightarrow>
      HandleRequest d ctx r = DeleteCustomer d ctx r) \<and>
   (HTTPMethod r = ''GET'' \<and> Resource r = ''/customers/kpi'' \<longrightarrow>
      HandleRequest d ctx r = GetKPI d ctx) \<and>
   ((HTTPMethod r, Resource r) \<notin>
      {(''GET'', ''/customers''), (''GET'', ''/customers/{id}''), (''POST'', ''/customers''),
       (''PUT'', ''/customers/{id}''), (''DELETE'', ''/customers/{id}''),
       (''GET'', ''/customers/kpi'')} \<longrightarrow>
      HandleRequest d ctx r =
        (\<lparr>StatusCode = 404, Headers = [], Body' = ''Not Found''\<rparr>, None))"
  by (simp add: HandleRequest_def StatusNotFound_def)

lemma GetCustomers_failures:
  "(uc_GetCustomers d ctx = (cs, Some e) \<longrightarrow>
      GetCustomers d ctx = failure_encoding d e) \<and>
   (uc_GetCustomers d ctx = (cs, None) \<longrightarrow>
    Marshal_GetCustomersResponse d (DomainListToCustomerJsonList d cs) = (b, Some e) \<longrightarrow>
      GetCustomers d ctx = failure_encoding d (NewError d ErrInternal ''Error marshalling response'' e))"
  by (simp add: GetCustomers_def api_error_response_encoding)

lemma GetCustomer_failures:
  "(ParseInt d (path_param r ''id'') = (ID, Some e) \<longrightarrow>
      GetCustomer d ctx r = failure_encoding d (NewError d ErrInvalidInput ''invalid customer ID format'' e)) \<and>
   (ParseInt d (path_param r ''id'') = (ID, None) \<longrightarrow>
    ValidateID d ID = Some e \<longrightarrow>
      GetCustomer d ctx r = failure_encoding d e) \<and>
   (ParseInt d (path_param r ''id'') = (ID, None) \<longrightarrow>
    ValidateID d ID = None \<longrightarrow>
    uc_GetCustomerByID d ctx ID = (c, Some e) \<longrightarrow>
      GetCustomer d ctx r = failure_encoding d e) \<and>
   (ParseInt d (path_param r ''id'') = (ID, None) \<longrightarrow>
    ValidateID d ID = None \<longrightarrow>
    uc_GetCustomerByID d ctx ID = (c, None) \<longrightarrow>
    Marshal_GetCustomerResponse d (DomainToCustomerJson d c) = (b, Some e) \<longrightarrow>
      GetCustomer d ctx r = failure_encoding d (NewError d ErrInternal ''Error marshalling response'' e))"
  by (simp add: GetCustomer_def api_error_response_encoding)

lemma CreateCustomer_failures:
  "(Unmarshal d (Body r) = (req, Some e) \<longrightarrow>
      CreateCustomer d ctx r =
        failure_encoding d (NewError d ErrValidation (unmarshal_message (Error d e)) e)) \<and>
   (Unmarshal d (Body r) = (req, None) \<longrightarrow>
    validateRequest d req = Some e \<longrightarrow>
      CreateCustomer d ctx r = failure_encoding d e) \<and>
   (Unmarshal d (Body r) = (req, None) \<longrightarrow>
    validateRequest d req = None \<longrightarrow>
    uc_CreateCustomer d ctx (CustomerJsonToDomain d req) = Some e \<longrightarrow>
      CreateCustomer d ctx r = failure_encoding d e)"
  by (simp add: CreateCustomer_def api_error_response_encoding)

lemma UpdateCustomer_failures:
  "(ParseInt d (path_param r ''id'') = (ID, Some e) \<longrightarrow>
      UpdateCustomer d ctx r = failure_encoding d (NewError d ErrInvalidInput ''invalid customer ID format'' e)) \<and>
   (ParseInt d (path_param r ''id'') = (ID, None) \<longrightarrow>
    ValidateID d ID = Some e \<longrightarrow>
      UpdateCustomer d ctx r = failure_encoding d e) \<and>
   (ParseInt d (path_param r ''id'') = (ID, None) \<longrightarrow>
    ValidateID d ID = None \<longrightarrow>
    Unmarshal d (Body r) = (req, Some e) \<longrightarrow>
      UpdateCustomer d ctx r =
        failure_encoding d (NewError d ErrValidation ''invalid request body'' e)) \<and>
   (ParseInt d (path_param r ''id'') = (ID, None) \<longrightarrow>
    ValidateID d ID = None \<longrightarrow>
    Unmarshal d (Body r) = (req, None) \<longrightarrow>
    validateRequest d req = Some e \<longrightarrow>
      UpdateCustomer d ctx r = failure_encoding d e) \<and>
   (ParseInt d (path_param r ''id'') = (ID, None) \<longrightarrow>
    ValidateID d ID = None \<longrightarrow>
    Unmarshal d (Body r) = (req, None) \<longrightarrow>
    validateRequest d req = None \<longrightarrow>
    uc_UpdateCustomer d ctx (set_ID d (CustomerJsonToDomain d req) ID) = Some e \<longrightarrow>
      UpdateCustomer d ctx r = failure_encoding d e)"
  by (simp add: UpdateCustomer_def Let_def api_error_response_encoding)

lemma DeleteCustomer_failures:
  "(ParseInt d (path_param r ''id'') = (ID, Some e) \<longrightarrow>
      DeleteCustomer d ctx r = failure_encoding d (NewError d ErrInvalidInput ''invalid customer ID format'' e)) \<and>
   (ParseInt d (path_param r ''id'') = (ID, None) \<longrightarrow>
    ValidateID d ID = Some e \<longrightarrow>
      DeleteCustomer d ctx r = failure_encoding d e) \<and>
   (ParseInt d (path_param r ''id'') = (ID, None) \<longrightarrow>
    ValidateID d ID = None \<longrightarrow>
    uc_DeleteCustomer d ctx ID = Some e \<longrightarrow>
      DeleteCustomer d ctx r = failure_encoding d e)"
  by (simp add: DeleteCustomer_def api_error_response_encoding)

lemma GetKPI_failures:
  "(uc_GetKPI d ctx = (k, Some e) \<longrightarrow>
      GetKPI d ctx = failure_encoding d e) \<and>
   (uc_GetKPI d ctx = (k, None) \<longrightarrow>
    Marshal_KPI d (ToGetKPIJson d k) = (b, Some e) \<longrightarrow>
      GetKPI d ctx = failure_encoding d (NewError d ErrInternal ''Error marshalling response'' e))"
  by (simp add: GetKPI_def api_error_response_encoding)

text \<open>
  C10. \<open>HandleRequest\<close> and each of the six route handlers return a nil Go error for
  every request, whatever the use cases, the validators, the parser and the JSON encoder
  and decoder answer. Every failure is in the response alone: an unknown route gives 404
  with the body \<open>Not Found\<close>; a route that is known is answered by its handler; and in
  each handler an id that does not parse, an id or a body that does not validate, a body
  that does not decode, a use case that fails and a response that does not encode each
  give the status and the body that \<open>types.NewAPIError\<close> makes of that error. Every
  result of \<open>HandleRequest\<close> is such an encoding, a success or the 404 answer.
\<close>

theorem handlers_return_nil_error:
  "(snd (HandleRequest d ctx r) = None \<and>
    snd (GetCustomers d ctx) = None \<and>
    snd (GetCustomer d ctx r) = None \<and>
    snd (CreateCustomer d ctx r) = None \<and>
    snd (UpdateCustomer d ctx r) = None \<and>
    snd (DeleteCustomer d ctx r) = None \<and>
    snd (GetKPI d ctx) = None) \<and>
   encoded d (HandleRequest d ctx r) \<and>
   ((HTTPMethod r = ''GET'' \<and> Resource r = ''/customers'' \<longrightarrow>
       HandleRequest d ctx r = GetCustomers d ctx) \<and>
    (HTTPMethod r = ''GET'' \<and> Resource r = ''/customers/{id}'' \<longrightarrow>
       HandleRequest d ctx r = GetCustomer d ctx r) \<and>
    (HTTPMethod r = ''POST'' \<and> Resource r = ''/customers'' \<longrightarrow>
       HandleRequest d ctx r = CreateCustomer d ctx r) \<and>
    (HTTPMethod r = ''PUT'' \<and> Resource r = ''/customers/{id}'' \<longrightarrow>
       HandleRequest d ctx r = UpdateCustomer d ctx r) \<and>
    (HTTPMethod r = ''DELETE'' \<and> Resource r = ''/customers/{id}'' \<longrightarrow>
       HandleRequest d ctx r = DeleteCustomer d ctx r) \<and>
    (HTTPMethod r = ''GET'' \<and> Resource r = ''/customers/kpi'' \<longrightarrow>
       HandleRequest d ctx r = GetKPI d ctx) \<and>
    ((HTTPMethod r, Resource r) \<notin>
       {(''GET'', ''/customers''), (''GET'', ''/customers/{id}''), (''POST'', ''/customers''),
        (''PUT'', ''/customers/{id}''), (''DELETE'', ''/customers/{id}''),
        (''GET'', ''/customers/kpi'')} \<longrightarrow>
       HandleRequest d ctx r =
         (\<lparr>StatusCode = 404, Headers = [], Body' = ''Not Found''\<rparr>, None))) \<and>
   ((uc_GetCustomers d ctx = (cs, Some e) \<longrightarrow>
       GetCustomers d ctx = failure_encoding d e) \<and>
    (uc_GetCustomers d ctx = (cs, None) \<longrightarrow>
     Marshal_GetCustomersResponse d (DomainListToCustomerJsonList d cs) = (b, Some e) \<longrightarrow>
       GetCustomers d ctx = failure_encoding d (NewError d ErrInternal ''Error marshalling response'' e))) \<and>
   ((ParseInt d (path_param r ''id'') = (ID, Some e) \<longrightarrow>
       GetCustomer d ctx r = failure_encoding d (NewError d ErrInvalidInput ''invalid customer ID format'' e)) \<and>
    (ParseInt d (path_param r ''id'') = (ID, None) \<longrightarrow>
     ValidateID d ID = Some e \<longrightarrow>
       GetCustomer d ctx r = failure_encoding d e) \<and>
    (ParseInt d (path_param r ''id'') = (ID, None) \<longrightarrow>
     ValidateID d ID = None \<longrightarrow>
     uc_GetCustomerByID d ctx ID = (c, Some e) \<longrightarrow>
       GetCustomer d ctx r = failure_encoding d e) \<and>
    (ParseInt d (path_param r ''id'') = (ID, None) \<longrightarrow>
     ValidateID d ID = None \<longrightarrow>
     uc_GetCustomerByID d ctx ID = (c, None) \<longrightarrow>
     Marshal_GetCustomerResponse d (DomainToCustomerJson d c) = (b, Some e) \<longrightarrow>
       GetCustomer d ctx r = failure_encoding d (NewError d ErrInternal ''Error marshalling response'' e))) \<and>
   ((Unmarshal d (Body r) = (req, Some e) \<longrightarrow>
       CreateCustomer d ctx r =
         failure_encoding d (NewError d ErrValidation (unmarshal_message (Error d e)) e)) \<and>
    (Unmarshal d (Body r) = (req, None) \<longrightarrow>
     validateRequest d req = Some e \<longrightarrow>
       CreateCustomer d ctx r = failure_encoding d e) \<and>
    (Unmarshal d (Body r) = (req, None) \<longrightarrow>
     validateRequest d req = None \<longrightarrow>
     uc_CreateCustomer d ctx (CustomerJsonToDomain d req) = Some e \<longrightarrow>
       CreateCustomer d ctx r = failure_encoding d e)) \<and>
   ((ParseInt d (path_param r ''id'') = (ID, Some e) \<longrightarrow>
       UpdateCustomer d ctx r = failure_encoding d (NewError d ErrInvalidInput ''invalid customer ID format'' e)) \<and>
    (ParseInt d (path_param r ''id'') = (ID, None) \<longrightarrow>
     ValidateID d ID = Some e \<longrightarrow>
       UpdateCustomer d ctx r = failure_encoding d e) \<and>
    (ParseInt d (path_param r ''id'') = (ID, None) \<longrightarrow>
     ValidateID d ID = None \<longrightarrow>
     Unmarshal d (Body r) = (req, Some e) \<longrightarrow>
       UpdateCustomer d ctx r =
         failure_encoding d (NewError d ErrValidation ''invalid request body'' e)) \<and>
    (ParseInt d (path_param r ''id'') = (ID, None) \<longrightarrow>
     ValidateID d ID = None \<longrightarrow>
     Unmarshal d (Body r) = (req, None) \<longrightarrow>
     validateRequest d req = Some e \<longrightarrow>
       UpdateCustomer d ctx r = failure_encoding d e) \<and>
    (ParseInt d (path_param r ''id'') = (ID, None) \<longrightarrow>
     ValidateID d ID = None \<longrightarrow>
     Unmarshal d (Body r) = (req, None) \<longrightarrow>
     validateRequest d req = None \<longrightarrow>
     uc_UpdateCustomer d ctx (set_ID d (CustomerJsonToDomain d req) ID) = Some e \<longrightarrow>
       UpdateCustomer d ctx r = failure_encoding d e)) \<and>
   ((ParseInt d (path_param r ''id'') = (ID, Some e) \<longrightarrow>
       DeleteCustomer d ctx r = failure_encoding d (NewError d ErrInvalidInput ''invalid customer ID format'' e)) \<and>
    (ParseInt d (path_param r ''id'') = (ID, None) \<longrightarrow>
     ValidateID d ID = Some e \<longrightarrow>
       DeleteCustomer d ctx r = failure_encoding d e) \<and>
    (ParseInt d (path_param r ''id'') = (ID, None) \<longrightarrow>
     ValidateID d ID = None \<longrightarrow>
     uc_DeleteCustomer d ctx ID = Some e \<longrightarrow>
       DeleteCustomer d ctx r = failure_encoding d e)) \<and>
   ((uc_GetKPI d ctx = (k, Some e) \<longrightarrow>
       GetKPI d ctx = failure_encoding d e) \<and>
    (uc_GetKPI d ctx = (k, None) \<longrightarrow>
     Marshal_KPI d (ToGetKPIJson d k) = (b, Some e) \<longrightarrow>
       GetKPI d ctx = failure_encoding d (NewError d ErrInternal ''Error marshalling response'' e)))"
  using handlers_nil [of d ctx r] encoded_HandleRequest [of d ctx r]
    HandleRequest_routes [of r d ctx]
    GetCustomers_failures [of d ctx cs e b]
    GetCustomer_failures [of d r ID e ctx c b]
    CreateCustomer_failures [of d r req e ctx]
    UpdateCustomer_failures [of d r ID e ctx req]
    DeleteCustomer_failures [of d r ID e ctx]
    GetKPI_failures [of d ctx k e b]
  by blast

lemmas demo = demo_deps_def demo_request_def demo_status_def demo_kind_def
  failure_encoding_def path_param_def unmarshal_message_def

theorem handlers_return_nil_error_witness:
  "HandleRequest demo_deps 0 (demo_request ''PATCH'' ''/customers'' '''' '''') =
     (\<lparr>StatusCode = 404, Headers = [], Body' = ''Not Found''\<rparr>, None) \<and>
   HandleRequest demo_deps 1 (demo_request ''GET'' ''/customers'' '''' '''') =
     (\<lparr>StatusCode = 500, Headers = [], Body' = ''database unavailable''\<rparr>, None) \<and>
   HandleRequest demo_deps 2 (demo_request ''GET'' ''/customers'' '''' '''') =
     (\<lparr>StatusCode = 400, Headers = [], Body' = ''internal: Error marshalling response''\<rparr>, None) \<and>
   HandleRequest demo_deps 0 (demo_request ''GET'' ''/customers/{id}'' ''abc'' '''') =
     (\<lparr>StatusCode = 400, Headers = [], Body' = ''invalid input: invalid customer ID format''\<rparr>, None) \<and>
   HandleRequest demo_deps 0 (demo_request ''GET'' ''/customers/{id}'' ''0'' '''') =
     (\<lparr>StatusCode = 400, Headers = [], Body' = ''invalid ID''\<rparr>, None) \<and>
   HandleRequest demo_deps 0 (demo_request ''GET'' ''/customers/{id}'' ''9'' '''') =
     (\<lparr>StatusCode = 404, Headers = [], Body' = ''customer not found''\<rparr>, None) \<and>
   HandleRequest demo_deps 0 (demo_request ''GET'' ''/customers/{id}'' ''8'' '''') =
     (\<lparr>StatusCode = 400, Headers = [], Body' = ''internal: Error marshalling response''\<rparr>, None) \<and>
   HandleRequest demo_deps 0 (demo_request ''POST'' ''/customers'' '''' ''{'') =
     (\<lparr>StatusCode = 400, Headers = [], Body' = ''validation: request cannot be nil''\<rparr>, None) \<and>
   HandleRequest demo_deps 0 (demo_request ''POST'' ''/customers'' '''' '''') =
     (\<lparr>StatusCode = 400, Headers = [], Body' = ''name is required''\<rparr>, None) \<and>
   HandleRequest demo_deps 0 (demo_request ''POST'' ''/customers'' '''' ''ann'') =
     (\<lparr>StatusCode = 400, Headers = [], Body' = ''customer already exists''\<rparr>, None) \<and>
   HandleRequest demo_deps 0 (demo_request ''PUT'' ''/customers/{id}'' ''abc'' ''ann'') =
     (\<lparr>StatusCode = 400, Headers = [], Body' = ''invalid input: invalid customer ID format''\<rparr>, None) \<and>
   HandleRequest demo_deps 0 (demo_request ''PUT'' ''/customers/{id}'' ''0'' ''ann'') =
     (\<lparr>StatusCode = 400, Headers = [], Body' = ''invalid ID''\<rparr>, None) \<and>
   HandleRequest demo_deps 0 (demo_request ''PUT'' ''/customers/{id}'' ''7'' ''{'') =
     (\<lparr>StatusCode = 400, Headers = [], Body' = ''validation: invalid request body''\<rparr>, None) \<and>
   HandleRequest demo_deps 0 (demo_request ''PUT'' ''/customers/{id}'' ''7'' '''') =
     (\<lparr>StatusCode = 400, Headers = [], Body' = ''name is required''\<rparr>, None) \<and>
   HandleRequest demo_deps 0 (demo_request ''PUT'' ''/customers/{id}'' ''9'' ''ann'') =
     (\<lparr>StatusCode = 404, Headers = [], Body' = ''customer not found''\<rparr>, None) \<and>
   HandleRequest demo_deps 0 (demo_request ''DELETE'' ''/customers/{id}'' ''abc'' '''') =
     (\<lparr>StatusCode = 400, Headers = [], Body' = ''invalid input: invalid customer ID format''\<rparr>, None) \<and>
   HandleRequest demo_deps 0 (demo_request ''DELETE'' ''/customers/{id}'' ''0'' '''') =
     (\<lparr>StatusCode = 400, Headers = [], Body' = ''invalid ID''\<rparr>, None) \<and>
   HandleRequest demo_deps 0 (demo_request ''DELETE'' ''/customers/{id}'' ''9'' '''') =
     (\<lparr>StatusCode = 404, Headers = [], Body' = ''customer not found''\<rparr>, None) \<and>
   HandleRequest demo_deps 1 (demo_request ''GET'' ''/customers/kpi'' '''' '''') =
     (\<lparr>StatusCode = 500, Headers = [], Body' = ''database unavailable''\<rparr>, None) \<and>
   HandleRequest demo_deps 2 (demo_request ''GET'' ''/customers/kpi'' '''' '''') =
     (\<lparr>StatusCode = 400, Headers = [], Body' = ''internal: Error marshalling response''\<rparr>, None)"
proof -
  have c0: "HandleRequest demo_deps 0 (demo_request ''PATCH'' ''/customers'' '''' '''') =
       (\<lparr>StatusCode = 404, Headers = [], Body' = ''Not Found''\<rparr>, None)"
    using handlers_return_nil_error
      [where d = demo_deps and ctx = 0 and r = "demo_request ''PATCH'' ''/customers'' '''' ''''"
         and cs = "[]" and e = "[]" and b = "[]" and ID = "0" and c = "(0, [])"
         and req = "[]" and k = "0"]
    by (simp add: demo)
  have c1: "HandleRequest demo_deps 1 (demo_request ''GET'' ''/customers'' '''' '''') =
       (\<lparr>StatusCode = 500, Headers = [], Body' = ''database unavailable''\<rparr>, None)"
    using handlers_return_nil_error
      [where d = demo_deps and ctx = 1 and r = "demo_request ''GET'' ''/customers'' '''' ''''"
         and cs = "[]" and e = "''database unavailable''" and b = "[]" and ID = "0" and c = "(0, [])"
         and req = "[]" and k = "0"]
    by (simp add: demo)
  have c2: "HandleRequest demo_deps 2 (demo_request ''GET'' ''/customers'' '''' '''') =
       (\<lparr>StatusCode = 400, Headers = [], Body' = ''internal: Error marshalling response''\<rparr>, None)"
    using handlers_return_nil_error
      [where d = demo_deps and ctx = 2 and r = "demo_request ''GET'' ''/customers'' '''' ''''"
         and cs = "[(8, ''bob'')]" and e = "''unsupported value''" and b = "[]" and ID = "0" and c = "(0, [])"
         and req = "[]" and k = "0"]
    by (simp add: demo)
  have c3: "HandleRequest demo_deps 0 (demo_request ''GET'' ''/customers/{id}'' ''abc'' '''') =
       (\<lparr>StatusCode = 400, Headers = [], Body' = ''invalid input: invalid customer ID format''\<rparr>, None)"
    using handlers_return_nil_error
      [where d = demo_deps and ctx = 0 and r = "demo_request ''GET'' ''/customers/{id}'' ''abc'' ''''"
         and cs = "[]" and e = "''invalid syntax''" and b = "[]" and ID = "0" and c = "(0, [])"
         and req = "[]" and k = "0"]
    by (simp add: demo)
  have c4: "HandleRequest demo_deps 0 (demo_request ''GET'' ''/customers/{id}'' ''0'' '''') =
       (\<lparr>StatusCode = 400, Headers = [], Body' = ''invalid ID''\<rparr>, None)"
    using handlers_return_nil_error
      [where d = demo_deps and ctx = 0 and r = "demo_request ''GET'' ''/customers/{id}'' ''0'' ''''"
         and cs = "[]" and e = "''invalid ID''" and b = "[]" and ID = "0" and c = "(0, [])"
         and req = "[]" and k = "0"]
    by (simp add: demo)
  have c5: "HandleRequest demo_deps 0 (demo_request ''GET'' ''/customers/{id}'' ''9'' '''') =
       (\<lparr>StatusCode = 404, Headers = [], Body' = ''customer not found''\<rparr>, None)"
    using handlers_return_nil_error
      [where d = demo_deps and ctx = 0 and r = "demo_request ''GET'' ''/customers/{id}'' ''9'' ''''"
         and cs = "[]" and e = "''customer not found''" and b = "[]" and ID = "9" and c = "(0, [])"
         and req = "[]" and k = "0"]
    by (simp add: demo)
  have c6: "HandleRequest demo_deps 0 (demo_request ''GET'' ''/customers/{id}'' ''8'' '''') =
       (\<lparr>StatusCode = 400, Headers = [], Body' = ''internal: Error marshalling response''\<rparr>, None)"
    using handlers_return_nil_error
      [where d = demo_deps and ctx = 0 and r = "demo_request ''GET'' ''/customers/{id}'' ''8'' ''''"
         and cs = "[]" and e = "''unsupported value''" and b = "[]" and ID = "8" and c = "(8, ''bob'')"
         and req = "[]" and k = "0"]
    by (simp add: demo)
  have c7: "HandleRequest demo_deps 0 (demo_request ''POST'' ''/customers'' '''' ''{'') =
       (\<lparr>StatusCode = 400, Headers = [], Body' = ''validation: request cannot be nil''\<rparr>, None)"
    using handlers_return_nil_error
      [where d = demo_deps and ctx = 0 and r = "demo_request ''POST'' ''/customers'' '''' ''{''"
         and cs = "[]" and e = "''unexpected end of JSON input''" and b = "[]" and ID = "0" and c = "(0, [])"
         and req = "[]" and k = "0"]
    by (simp add: demo)
  have c8: "HandleRequest demo_deps 0 (demo_request ''POST'' ''/customers'' '''' '''') =
       (\<lparr>StatusCode = 400, Headers = [], Body' = ''name is required''\<rparr>, None)"
    using handlers_return_nil_error
      [where d = demo_deps and ctx = 0 and r = "demo_request ''POST'' ''/customers'' '''' ''''"
         and cs = "[]" and e = "''name is required''" and b = "[]" and ID = "0" and c = "(0, [])"
         and req = "[]" and k = "0"]
    by (simp add: demo)
  have c9: "HandleRequest demo_deps 0 (demo_request ''POST'' ''/customers'' '''' ''ann'') =
       (\<lparr>StatusCode = 400, Headers = [], Body' = ''customer already exists''\<rparr>, None)"
    using handlers_return_nil_error
      [where d = demo_deps and ctx = 0 and r = "demo_request ''POST'' ''/customers'' '''' ''ann''"
         and cs = "[]" and e = "''customer already exists''" and b = "[]" and ID = "0" and c = "(0, [])"
         and req = "''ann''" and k = "0"]
    by (simp add: demo)
  have c10: "HandleRequest demo_deps 0 (demo_request ''PUT'' ''/customers/{id}'' ''abc'' ''ann'') =
       (\<lparr>StatusCode = 400, Headers = [], Body' = ''invalid input: invalid customer ID format''\<rparr>, None)"
    using handlers_return_nil_error
      [where d = demo_deps and ctx = 0 and r = "demo_request ''PUT'' ''/customers/{id}'' ''abc'' ''ann''"
         and cs = "[]" and e = "''invalid syntax''" and b = "[]" and ID = "0" and c = "(0, [])"
         and req = "[]" and k = "0"]
    by (simp add: demo)
  have c11: "HandleRequest demo_deps 0 (demo_request ''PUT'' ''/customers/{id}'' ''0'' ''ann'') =
       (\<lparr>StatusCode = 400, Headers = [], Body' = ''invalid ID''\<rparr>, None)"
    using handlers_return_nil_error
      [where d = demo_deps and ctx = 0 and r = "demo_request ''PUT'' ''/customers/{id}'' ''0'' ''ann''"
         and cs = "[]" and e = "''invalid ID''" and b = "[]" and ID = "0" and c = "(0, [])"
         and req = "[]" and k = "0"]
    by (simp add: demo)
  have c12: "HandleRequest demo_deps 0 (demo_request ''PUT'' ''/customers/{id}'' ''7'' ''{'') =
       (\<lparr>StatusCode = 400, Headers = [], Body' = ''validation: invalid request body''\<rparr>, None)"
    using handlers_return_nil_error
      [where d = demo_deps and ctx = 0 and r = "demo_request ''PUT'' ''/customers/{id}'' ''7'' ''{''"
         and cs = "[]" and e = "''unexpected end of JSON input''" and b = "[]" and ID = "7" and c = "(0, [])"
         and req = "[]" and k = "0"]
    by (simp add: demo)
  have c13: "HandleRequest demo_deps 0 (demo_request ''PUT'' ''/customers/{id}'' ''7'' '''') =
       (\<lparr>StatusCode = 400, Headers = [], Body' = ''name is required''\<rparr>, None)"
    using handlers_return_nil_error
      [where d = demo_deps and ctx = 0 and r = "demo_request ''PUT'' ''/customers/{id}'' ''7'' ''''"
         and cs = "[]" and e = "''name is required''" and b = "[]" and ID = "7" and c = "(0, [])"
         and req = "[]" and k = "0"]
    by (simp add: demo)
  have c14: "HandleRequest demo_deps 0 (demo_request ''PUT'' ''/customers/{id}'' ''9'' ''ann'') =
       (\<lparr>StatusCode = 404, Headers = [], Body' = ''customer not found''\<rparr>, None)"
    using handlers_return_nil_error
      [where d = demo_deps and ctx = 0 and r = "demo_request ''PUT'' ''/customers/{id}'' ''9'' ''ann''"
         and cs = "[]" and e = "''customer not found''" and b = "[]" and ID = "9" and c = "(0, [])"
         and req = "''ann''" and k = "0"]
    by (simp add: demo)
  have c15: "HandleRequest demo_deps 0 (demo_request ''DELETE'' ''/customers/{id}'' ''abc'' '''') =
       (\<lparr>StatusCode = 400, Headers = [], Body' = ''invalid input: invalid customer ID format''\<rparr>, None)"
    using handlers_return_nil_error
      [where d = demo_deps and ctx = 0 and r = "demo_request ''DELETE'' ''/customers/{id}'' ''abc'' ''''"
         and cs = "[]" and e = "''invalid syntax''" and b = "[]" and ID = "0" and c = "(0, [])"
         and req = "[]" and k = "0"]
    by (simp add: demo)
  have c16: "HandleRequest demo_deps 0 (demo_request ''DELETE'' ''/customers/{id}'' ''0'' '''') =
       (\<lparr>StatusCode = 400, Headers = [], Body' = ''invalid ID''\<rparr>, None)"
    using handlers_return_nil_error
      [where d = demo_deps and ctx = 0 and r = "demo_request ''DELETE'' ''/customers/{id}'' ''0'' ''''"
         and cs = "[]" and e = "''invalid ID''" and b = "[]" and ID = "0" and c = "(0, [])"
         and req = "[]" and k = "0"]
    by (simp add: demo)
  have c17: "HandleRequest demo_deps 0 (demo_request ''DELETE'' ''/customers/{id}'' ''9'' '''') =
       (\<lparr>StatusCode = 404, Headers = [], Body' = ''customer not found''\<rparr>, None)"
    using handlers_return_nil_error
      [where d = demo_deps and ctx = 0 and r = "demo_request ''DELETE'' ''/customers/{id}'' ''9'' ''''"
         and cs = "[]" and e = "''customer not found''" and b = "[]" and ID = "9" and c = "(0, [])"
         and req = "[]" and k = "0"]
    by (simp add: demo)
  have c18: "HandleRequest demo_deps 1 (demo_request ''GET'' ''/customers/kpi'' '''' '''') =
       (\<lparr>StatusCode = 500, Headers = [], Body' = ''database unavailable''\<rparr>, None)"
    using handlers_return_nil_error
      [where d = demo_deps and ctx = 1 and r = "demo_request ''GET'' ''/customers/kpi'' '''' ''''"
         and cs = "[]" and e = "''database unavailable''" and b = "[]" and ID = "0" and c = "(0, [])"
         and req = "[]" and k = "0"]
    by (simp add: demo)
  have c19: "HandleRequest demo_deps 2 (demo_request ''GET'' ''/customers/kpi'' '''' '''') =
       (\<lparr>StatusCode = 400, Headers = [], Body' = ''internal: Error marshalling response''\<rparr>, None)"
    using handlers_return_nil_error
      [where d = demo_deps and ctx = 2 and r = "demo_request ''GET'' ''/customers/kpi'' '''' ''''"
         and cs = "[]" and e = "''unsupported value''" and b = "[]" and ID = "0" and c = "(0, [])"
         and req = "[]" and k = "13"]
    by (simp add: demo)
  from c0 c1 c2 c3 c4 c5 c6 c7 c8 c9 c10 c11 c12 c13 c14 c15 c16 c17 c18 c19
  show ?thesis by simp
qed

end
